theory Spec2Isabelle
  imports Complex_Main "HOL-Library.AList" "HOL-Library.Monad_Syntax"
begin

section \<open>Python values\<close>

text \<open>
  The item dictionaries of \<^verbatim>\<open>app/api/v1/items.py\<close> are \<^verbatim>\<open>dict[str, Any]\<close>, and the
  cache client of \<^verbatim>\<open>app/services/cache.py\<close> stores and returns \<^verbatim>\<open>Any\<close>. The values
  that occur are the JSON-shaped Python values; \<open>PObject\<close> stands for any Python object
  that \<^verbatim>\<open>json.dumps\<close> rejects (a \<^verbatim>\<open>datetime\<close>, a \<^verbatim>\<open>set\<close>, ...). A Python \<^verbatim>\<open>dict\<close>
  keeps insertion order, so it is an association list. Floats are carried as reals: no
  floating-point arithmetic is performed on them by the code. A value of this type
  stands for an object within the limits of the interpreter: it is a finite tree nested
  below the recursion limit, and its integers are of a size that converts to and from
  text, as is every value that the request parser of the framework admits. The objects
  beyond these limits are the further constructors of \<open>pyany\<close> below.
\<close>

datatype pyval =
    PNone
  | PBool bool
  | PInt int
  | PFloat real
  | PStr string
  | PList "pyval list"
  | PDict "(string \<times> pyval) list"
  | PObject

text \<open>Python's truth value of an object, as tested by \<^verbatim>\<open>if cached:\<close>.\<close>

fun truthy :: "pyval \<Rightarrow> bool" where
  "truthy PNone = False"
| "truthy (PBool b) = b"
| "truthy (PInt i) = (i \<noteq> 0)"
| "truthy (PFloat x) = (x \<noteq> 0)"
| "truthy (PStr s) = (s \<noteq> [])"
| "truthy (PList xs) = (xs \<noteq> [])"
| "truthy (PDict kvs) = (kvs \<noteq> [])"
| "truthy PObject = True"

text \<open>The values of this type that \<^verbatim>\<open>json.dumps\<close> accepts.\<close>

fun json_serializable :: "pyval \<Rightarrow> bool" where
  "json_serializable PObject = False"
| "json_serializable (PList xs) = list_all json_serializable xs"
| "json_serializable (PDict kvs) = list_all json_serializable (map snd kvs)"
| "json_serializable _ = True"

section \<open>Exceptions\<close>

text \<open>
  \<open>RedisError\<close> is the base class of the exceptions of the Redis client; connection
  failures, timeouts and error replies are subclasses of it. \<open>JSONDecodeError\<close> is a
  subclass of \<open>ValueError\<close>; \<open>ValueError\<close> below is an instance of the base class that is
  not a \<open>JSONDecodeError\<close>, so that no handler of the program catches it.
  \<open>ValidationError\<close> is raised by a response model, \<open>RequestValidationError\<close> by the
  framework on a query parameter out of its declared bounds (status 422).
  \<open>HTTPException\<close> carries the status code and the detail text.
\<close>

datatype redis_error = ConnectionError | TimeoutError | ResponseError

datatype exn =
    RedisError redis_error
  | JSONDecodeError
  | TypeError
  | ValueError
  | RecursionError
  | ValidationError
  | RequestValidationError
  | HTTPException nat string

fun is_RedisError :: "exn \<Rightarrow> bool" where
  "is_RedisError (RedisError _) = True"
| "is_RedisError _ = False"

section \<open>The json library and the Redis server\<close>

text \<open>
  What a caller can pass to the cache client as \<^verbatim>\<open>value: Any\<close>: a value of the type
  above, or one of the objects on which \<^verbatim>\<open>json.dumps\<close> raises something else than
  \<^verbatim>\<open>TypeError\<close>: a list or dictionary that contains itself (\<^verbatim>\<open>ValueError\<close>, circular
  reference), an integer of more digits than the interpreter converts to text (4300 by
  default; \<^verbatim>\<open>ValueError\<close>), and a nesting deeper than the recursion limit
  (\<^verbatim>\<open>RecursionError\<close>). The items API passes item dictionaries only.
\<close>

datatype pyany = Value pyval | Cyclic | HugeInt | TooDeep

text \<open>
  The text held by Redis is represented by what it decodes to: \<open>Dumped v\<close> is the text
  \<^verbatim>\<open>json.dumps(v)\<close>, and \<open>Raw s\<close> is a text \<open>s\<close> that is not a JSON document (the empty
  text among them). \<open>HugeDigits\<close> is a run of more digits than the interpreter converts to
  an integer, and \<open>DeepText\<close> a JSON text nested deeper than the recursion limit.
  \<^verbatim>\<open>json.dumps\<close> raises \<^verbatim>\<open>TypeError\<close> on an object it cannot serialize, and
  \<^verbatim>\<open>ValueError\<close> or \<^verbatim>\<open>RecursionError\<close> on the objects above; \<^verbatim>\<open>json.loads\<close> raises
  \<^verbatim>\<open>JSONDecodeError\<close> on a text that is not JSON, \<^verbatim>\<open>ValueError\<close> on the digit run and
  \<^verbatim>\<open>RecursionError\<close> on the deep text.
\<close>

datatype redis_str = Dumped pyval | Raw string | HugeDigits | DeepText

fun json_dumps :: "pyany \<Rightarrow> exn + redis_str" where
  "json_dumps (Value v) = (if json_serializable v then Inr (Dumped v) else Inl TypeError)"
| "json_dumps Cyclic = Inl ValueError"
| "json_dumps HugeInt = Inl ValueError"
| "json_dumps TooDeep = Inl RecursionError"

fun json_loads :: "redis_str \<Rightarrow> exn + pyval" where
  "json_loads (Dumped v) = (if json_serializable v then Inr v else Inl JSONDecodeError)"
| "json_loads (Raw s) = Inl JSONDecodeError"
| "json_loads HugeDigits = Inl ValueError"
| "json_loads DeepText = Inl RecursionError"

text \<open>Truth value of a Python \<^verbatim>\<open>str\<close>: false for the empty text only.\<close>

fun str_truthy :: "redis_str \<Rightarrow> bool" where
  "str_truthy (Raw s) = (s \<noteq> [])"
| "str_truthy _ = True"

text \<open>
  The Redis server is outside the program. Its state is the key space (value and
  remaining time to live in seconds, if any); \<open>faults\<close> says for each command sent to it,
  counted by \<open>ncalls\<close>, whether the command fails and how. A command that fails leaves
  the key space as it is. Expiry of entries over time is not modelled.
\<close>

record redis_server =
  store :: "string \<rightharpoonup> redis_str \<times> int option"
  faults :: "nat \<Rightarrow> redis_error option"
  ncalls :: nat

definition tick :: "redis_server \<Rightarrow> redis_server" where
  "tick r = r\<lparr>ncalls := Suc (ncalls r)\<rparr>"

definition redis_PING :: "redis_server \<Rightarrow> (exn + bool) \<times> redis_server" where
  "redis_PING r =
     (case faults r (ncalls r) of
        Some e \<Rightarrow> (Inl (RedisError e), tick r)
      | None \<Rightarrow> (Inr True, tick r))"

definition redis_GET :: "string \<Rightarrow> redis_server \<Rightarrow> (exn + redis_str option) \<times> redis_server" where
  "redis_GET key r =
     (case faults r (ncalls r) of
        Some e \<Rightarrow> (Inl (RedisError e), tick r)
      | None \<Rightarrow> (Inr (map_option fst (store r key)), tick r))"

definition redis_SET :: "string \<Rightarrow> redis_str \<Rightarrow> redis_server \<Rightarrow> (exn + bool) \<times> redis_server" where
  "redis_SET key v r =
     (case faults r (ncalls r) of
        Some e \<Rightarrow> (Inl (RedisError e), tick r)
      | None \<Rightarrow> (Inr True, tick (r\<lparr>store := (store r)(key \<mapsto> (v, None))\<rparr>)))"

text \<open>\<^verbatim>\<open>SETEX\<close> rejects an expiry that is not positive with an error reply.\<close>

definition redis_SETEX :: "string \<Rightarrow> int \<Rightarrow> redis_str \<Rightarrow> redis_server \<Rightarrow> (exn + bool) \<times> redis_server" where
  "redis_SETEX key ttl v r =
     (case faults r (ncalls r) of
        Some e \<Rightarrow> (Inl (RedisError e), tick r)
      | None \<Rightarrow>
          if ttl \<le> 0 then (Inl (RedisError ResponseError), tick r)
          else (Inr True, tick (r\<lparr>store := (store r)(key \<mapsto> (v, Some ttl))\<rparr>)))"

definition redis_DEL :: "string \<Rightarrow> redis_server \<Rightarrow> (exn + int) \<times> redis_server" where
  "redis_DEL key r =
     (case faults r (ncalls r) of
        Some e \<Rightarrow> (Inl (RedisError e), tick r)
      | None \<Rightarrow>
          (Inr (if store r key = None then 0 else 1), tick (r\<lparr>store := (store r)(key := None)\<rparr>)))"

definition redis_EXISTS :: "string \<Rightarrow> redis_server \<Rightarrow> (exn + int) \<times> redis_server" where
  "redis_EXISTS key r =
     (case faults r (ncalls r) of
        Some e \<Rightarrow> (Inl (RedisError e), tick r)
      | None \<Rightarrow> (Inr (if store r key = None then 0 else 1), tick r))"

section \<open>The cache client: \<^verbatim>\<open>app/services/cache.py\<close>\<close>

datatype ConnectionPool = ConnectionPool
datatype Redis = Redis

record CacheService =
  cs_pool :: "ConnectionPool option"
  cs_client :: "Redis option"

definition CacheService_init :: CacheService where
  "CacheService_init = \<lparr>cs_pool = None, cs_client = None\<rparr>"

text \<open>
  \<^verbatim>\<open>try: ... except (E1, E2): return d\<close>: an exception of a listed class is replaced by
  the handler's value, any other exception propagates.
\<close>

definition except :: "(exn \<Rightarrow> bool) \<Rightarrow> 'a \<Rightarrow> exn + 'a \<Rightarrow> exn + 'a" where
  "except handled d res =
     (case res of Inl e \<Rightarrow> if handled e then Inr d else Inl e | Inr v \<Rightarrow> Inr v)"

text \<open>\<^verbatim>\<open>connect\<close> assigns pool and client before the probe, and re-raises its failure.\<close>

definition connect :: "CacheService \<Rightarrow> redis_server \<Rightarrow> (exn + unit) \<times> CacheService \<times> redis_server" where
  "connect self r =
     (let self1 = self\<lparr>cs_pool := Some ConnectionPool, cs_client := Some Redis\<rparr>
      in case redis_PING r of
           (Inl e, r') \<Rightarrow> (Inl e, self1, r')
         | (Inr _, r') \<Rightarrow> (Inr (), self1, r'))"

definition disconnect :: "CacheService \<Rightarrow> CacheService" where
  "disconnect self =
     (let self1 = (if cs_client self \<noteq> None then self\<lparr>cs_client := None\<rparr> else self)
      in if cs_pool self1 \<noteq> None then self1\<lparr>cs_pool := None\<rparr> else self1)"

definition health_check :: "CacheService \<Rightarrow> redis_server \<Rightarrow> (exn + bool) \<times> redis_server" where
  "health_check self r =
     (if cs_client self = None then (Inr False, r)
      else case redis_PING r of
             (res, r') \<Rightarrow>
               (except is_RedisError False (case res of Inl e \<Rightarrow> Inl e | Inr _ \<Rightarrow> Inr True), r'))"

definition CacheService_get :: "CacheService \<Rightarrow> string \<Rightarrow> redis_server \<Rightarrow> (exn + pyval) \<times> redis_server" where
  "CacheService_get self key r =
     (if cs_client self = None then (Inr PNone, r)
      else case redis_GET key r of
             (res, r') \<Rightarrow>
               (except (\<lambda>e. is_RedisError e \<or> e = JSONDecodeError) PNone
                  (case res of
                     Inl e \<Rightarrow> Inl e
                   | Inr None \<Rightarrow> Inr PNone
                   | Inr (Some value) \<Rightarrow>
                       if str_truthy value then json_loads value else Inr PNone), r'))"

definition CacheService_set ::
  "CacheService \<Rightarrow> string \<Rightarrow> pyany \<Rightarrow> int option \<Rightarrow> redis_server \<Rightarrow> (exn + bool) \<times> redis_server" where
  "CacheService_set self key v ttl r =
     (if cs_client self = None then (Inr False, r)
      else case json_dumps v of
             Inl e \<Rightarrow> (except (\<lambda>e. is_RedisError e \<or> e = TypeError) False (Inl e), r)
           | Inr serialized \<Rightarrow>
               (case (case ttl of
                        Some t \<Rightarrow> if t \<noteq> 0 then redis_SETEX key t serialized r
                                  else redis_SET key serialized r
                      | None \<Rightarrow> redis_SET key serialized r) of
                  (res, r') \<Rightarrow>
                    (except (\<lambda>e. is_RedisError e \<or> e = TypeError) False
                       (case res of Inl e \<Rightarrow> Inl e | Inr _ \<Rightarrow> Inr True), r')))"

definition CacheService_delete :: "CacheService \<Rightarrow> string \<Rightarrow> redis_server \<Rightarrow> (exn + bool) \<times> redis_server" where
  "CacheService_delete self key r =
     (if cs_client self = None then (Inr False, r)
      else case redis_DEL key r of
             (res, r') \<Rightarrow>
               (except is_RedisError False (case res of Inl e \<Rightarrow> Inl e | Inr _ \<Rightarrow> Inr True), r'))"

definition CacheService_exists :: "CacheService \<Rightarrow> string \<Rightarrow> redis_server \<Rightarrow> (exn + bool) \<times> redis_server" where
  "CacheService_exists self key r =
     (if cs_client self = None then (Inr False, r)
      else case redis_EXISTS key r of
             (res, r') \<Rightarrow>
               (except is_RedisError False
                  (case res of Inl e \<Rightarrow> Inl e | Inr n \<Rightarrow> Inr (n \<noteq> 0)), r'))"

section \<open>The items API: \<^verbatim>\<open>app/api/v1/items.py\<close>\<close>

definition CACHE_PREFIX :: string where
  "CACHE_PREFIX = ''item:''"

definition CACHE_TTL :: int where
  "CACHE_TTL = 3600"

definition ITEMS_LIST_KEY :: string where
  "ITEMS_LIST_KEY = ''items:list''"

subsection \<open>Python dictionaries\<close>

text \<open>
  \<^verbatim>\<open>d[k] = v\<close> replaces the value of a key in place or appends a new key;
  \<^verbatim>\<open>del d[k]\<close> removes the key; \<^verbatim>\<open>list(d.values())\<close> is in insertion order.
\<close>

definition dict_get :: "('k \<times> 'v) list \<Rightarrow> 'k \<Rightarrow> 'v option" where
  "dict_get d k = map_of d k"

definition dict_set :: "('k \<times> 'v) list \<Rightarrow> 'k \<Rightarrow> 'v \<Rightarrow> ('k \<times> 'v) list" where
  "dict_set d k v = AList.update k v d"

definition dict_del :: "('k \<times> 'v) list \<Rightarrow> 'k \<Rightarrow> ('k \<times> 'v) list" where
  "dict_del d k = AList.delete k d"

definition dict_values :: "('k \<times> 'v) list \<Rightarrow> 'v list" where
  "dict_values d = map snd d"

subsection \<open>Request and response models\<close>

text \<open>
  \<^verbatim>\<open>ItemCreate\<close> after validation. In \<^verbatim>\<open>ItemUpdate\<close> every field is either unset
  (\<open>None\<close>), set to \<^verbatim>\<open>None\<close> (\<open>Some None\<close>) or set to a value (\<open>Some (Some v)\<close>):
  \<^verbatim>\<open>model_dump(exclude_unset=True)\<close> keeps the fields that were set, whatever their value.
\<close>

record ItemCreate =
  ic_name :: string
  ic_description :: "string option"
  ic_price :: real
  ic_quantity :: int
  ic_tags :: "string list"

record ItemUpdate =
  iu_name :: "string option option"
  iu_description :: "string option option"
  iu_price :: "real option option"
  iu_quantity :: "int option option"
  iu_tags :: "string list option option"

record ItemResponse =
  ir_id :: string
  ir_name :: string
  ir_description :: "string option"
  ir_price :: real
  ir_quantity :: int
  ir_tags :: "string list"
  ir_created_at :: string
  ir_updated_at :: string

record ItemListResponse =
  lr_items :: "ItemResponse list"
  lr_total :: int
  lr_page :: int
  lr_page_size :: int
  lr_total_pages :: int

definition opt_str :: "string option \<Rightarrow> pyval" where
  "opt_str x = (case x of None \<Rightarrow> PNone | Some s \<Rightarrow> PStr s)"

definition ItemCreate_model_dump :: "ItemCreate \<Rightarrow> (string \<times> pyval) list" where
  "ItemCreate_model_dump item =
     [(''name'', PStr (ic_name item)),
      (''description'', opt_str (ic_description item)),
      (''price'', PFloat (ic_price item)),
      (''quantity'', PInt (ic_quantity item)),
      (''tags'', PList (map PStr (ic_tags item)))]"

definition dump_set :: "string \<Rightarrow> ('a \<Rightarrow> pyval) \<Rightarrow> 'a option option \<Rightarrow> (string \<times> pyval) list" where
  "dump_set k f x =
     (case x of None \<Rightarrow> [] | Some None \<Rightarrow> [(k, PNone)] | Some (Some v) \<Rightarrow> [(k, f v)])"

definition ItemUpdate_model_dump_exclude_unset :: "ItemUpdate \<Rightarrow> (string \<times> pyval) list" where
  "ItemUpdate_model_dump_exclude_unset item =
     dump_set ''name'' PStr (iu_name item) @
     dump_set ''description'' PStr (iu_description item) @
     dump_set ''price'' PFloat (iu_price item) @
     dump_set ''quantity'' PInt (iu_quantity item) @
     dump_set ''tags'' (\<lambda>ts. PList (map PStr ts)) (iu_tags item)"

text \<open>
  \<^verbatim>\<open>ItemResponse(**d)\<close>: \<^verbatim>\<open>**d\<close> raises \<^verbatim>\<open>TypeError\<close> unless \<open>d\<close> is a mapping; the
  model then validates the eight fields by name, ignores other keys, and raises
  \<^verbatim>\<open>ValidationError\<close> when a field is missing or has a value of the wrong type. The
  time stamps are kept as the ISO texts the program writes. Of the conversions that the
  validation library applies to values of another type, only int to float is modelled;
  the program itself writes values of the declared types only.
\<close>

fun as_str :: "pyval \<Rightarrow> string option" where
  "as_str (PStr s) = Some s"
| "as_str _ = None"

fun as_opt_str :: "pyval \<Rightarrow> string option option" where
  "as_opt_str PNone = Some None"
| "as_opt_str (PStr s) = Some (Some s)"
| "as_opt_str _ = None"

fun as_float :: "pyval \<Rightarrow> real option" where
  "as_float (PFloat x) = Some x"
| "as_float (PInt i) = Some (of_int i)"
| "as_float _ = None"

fun as_int :: "pyval \<Rightarrow> int option" where
  "as_int (PInt i) = Some i"
| "as_int _ = None"

fun as_str_list :: "pyval \<Rightarrow> string list option" where
  "as_str_list (PList xs) =
     (if list_all (\<lambda>x. as_str x \<noteq> None) xs then Some (map (\<lambda>x. the (as_str x)) xs) else None)"
| "as_str_list _ = None"

definition field :: "(string \<times> pyval) list \<Rightarrow> string \<Rightarrow> (pyval \<Rightarrow> 'a option) \<Rightarrow> 'a option" where
  "field d k conv = (case dict_get d k of None \<Rightarrow> None | Some v \<Rightarrow> conv v)"

definition ItemResponse_validate :: "(string \<times> pyval) list \<Rightarrow> ItemResponse option" where
  "ItemResponse_validate d =
     do {
       i \<leftarrow> field d ''id'' as_str;
       n \<leftarrow> field d ''name'' as_str;
       ds \<leftarrow> field d ''description'' as_opt_str;
       p \<leftarrow> field d ''price'' as_float;
       q \<leftarrow> field d ''quantity'' as_int;
       ts \<leftarrow> field d ''tags'' as_str_list;
       c \<leftarrow> field d ''created_at'' as_str;
       u \<leftarrow> field d ''updated_at'' as_str;
       Some \<lparr>ir_id = i, ir_name = n, ir_description = ds, ir_price = p, ir_quantity = q,
             ir_tags = ts, ir_created_at = c, ir_updated_at = u\<rparr>
     }"

fun ItemResponse_of :: "pyval \<Rightarrow> exn + ItemResponse" where
  "ItemResponse_of (PDict d) =
     (case ItemResponse_validate d of None \<Rightarrow> Inl ValidationError | Some r \<Rightarrow> Inr r)"
| "ItemResponse_of _ = Inl TypeError"

subsection \<open>Program state\<close>

text \<open>
  The module globals \<^verbatim>\<open>_items_db\<close> and \<^verbatim>\<open>_cache_service\<close>, and the Redis server the
  client talks to. \<open>trace\<close> is a ghost log of the effects in the order the program
  performs them: writes to \<^verbatim>\<open>_items_db\<close>, calls of the cache client (whatever they
  return) and calls of the metric hooks. Log output is not modelled.
\<close>

datatype event =
    DbWrite string
  | DbDelete string
  | CacheGet string
  | CacheSet string
  | CacheDelete string
  | RecordCacheHit
  | RecordCacheMiss
  | RecordItemCreated
  | RecordItemDeleted

record world =
  items_db :: "(string \<times> (string \<times> pyval) list) list"
  cache_service :: "CacheService option"
  redis :: redis_server
  trace :: "event list"

definition emit :: "event \<Rightarrow> world \<Rightarrow> world" where
  "emit ev w = w\<lparr>trace := trace w @ [ev]\<rparr>"

text \<open>Sequencing of effects: an exception ends the handler, the state so far stays.\<close>

definition seq ::
  "(world \<Rightarrow> (exn + 'a) \<times> world) \<Rightarrow> ('a \<Rightarrow> world \<Rightarrow> (exn + 'b) \<times> world) \<Rightarrow> world \<Rightarrow> (exn + 'b) \<times> world" where
  "seq m f w = (case m w of (Inl e, w') \<Rightarrow> (Inl e, w') | (Inr a, w') \<Rightarrow> f a w')"

definition get_cache_service :: "world \<Rightarrow> CacheService \<times> world" where
  "get_cache_service w =
     (case cache_service w of
        None \<Rightarrow> (CacheService_init, w\<lparr>cache_service := Some CacheService_init\<rparr>)
      | Some c \<Rightarrow> (c, w))"

definition init_cache :: "world \<Rightarrow> (exn + CacheService) \<times> world" where
  "init_cache w =
     (case get_cache_service w of
        (service, w1) \<Rightarrow>
          (case connect service (redis w1) of
             (res, service', r') \<Rightarrow>
               (case res of Inl e \<Rightarrow> Inl e | Inr _ \<Rightarrow> Inr service',
                w1\<lparr>cache_service := Some service', redis := r'\<rparr>)))"

text \<open>\<^verbatim>\<open>close_cache\<close> disconnects the singleton and drops it.\<close>

definition close_cache :: "world \<Rightarrow> world" where
  "close_cache w =
     (case cache_service w of
        None \<Rightarrow> w
      | Some c \<Rightarrow> (let c' = disconnect c in w\<lparr>cache_service := None\<rparr>))"

text \<open>\<^verbatim>\<open>cache = await get_cache_service(); await cache.get(key)\<close> and its siblings.\<close>

definition cache_get :: "string \<Rightarrow> world \<Rightarrow> (exn + pyval) \<times> world" where
  "cache_get key w =
     (case get_cache_service w of
        (cache, w1) \<Rightarrow>
          (case CacheService_get cache key (redis w1) of
             (res, r') \<Rightarrow> (res, emit (CacheGet key) (w1\<lparr>redis := r'\<rparr>))))"

definition cache_set :: "string \<Rightarrow> pyval \<Rightarrow> int option \<Rightarrow> world \<Rightarrow> (exn + bool) \<times> world" where
  "cache_set key v ttl w =
     (case get_cache_service w of
        (cache, w1) \<Rightarrow>
          (case CacheService_set cache key (Value v) ttl (redis w1) of
             (res, r') \<Rightarrow> (res, emit (CacheSet key) (w1\<lparr>redis := r'\<rparr>))))"

definition cache_delete :: "string \<Rightarrow> world \<Rightarrow> (exn + bool) \<times> world" where
  "cache_delete key w =
     (case get_cache_service w of
        (cache, w1) \<Rightarrow>
          (case CacheService_delete cache key (redis w1) of
             (res, r') \<Rightarrow> (res, emit (CacheDelete key) (w1\<lparr>redis := r'\<rparr>))))"

definition metric :: "event \<Rightarrow> world \<Rightarrow> (exn + unit) \<times> world" where
  "metric ev w = (Inr (), emit ev w)"

definition raise :: "exn \<Rightarrow> world \<Rightarrow> (exn + 'a) \<times> world" where
  "raise e w = (Inl e, w)"

definition return :: "exn + 'a \<Rightarrow> world \<Rightarrow> (exn + 'a) \<times> world" where
  "return res w = (res, w)"

subsection \<open>Cache helpers\<close>

definition get_cache_key :: "string \<Rightarrow> string" where
  "get_cache_key item_id = CACHE_PREFIX @ item_id"

definition get_from_cache :: "string \<Rightarrow> world \<Rightarrow> (exn + pyval) \<times> world" where
  "get_from_cache item_id =
     seq (cache_get (get_cache_key item_id)) (\<lambda>cached.
       if truthy cached then seq (metric RecordCacheHit) (\<lambda>_. return (Inr cached))
       else seq (metric RecordCacheMiss) (\<lambda>_. return (Inr PNone)))"

definition set_in_cache :: "string \<Rightarrow> (string \<times> pyval) list \<Rightarrow> world \<Rightarrow> (exn + unit) \<times> world" where
  "set_in_cache item_id item =
     seq (cache_set (get_cache_key item_id) (PDict item) (Some CACHE_TTL)) (\<lambda>_. return (Inr ()))"

definition delete_from_cache :: "string \<Rightarrow> world \<Rightarrow> (exn + unit) \<times> world" where
  "delete_from_cache item_id =
     seq (cache_delete (get_cache_key item_id)) (\<lambda>_.
     seq (cache_delete ITEMS_LIST_KEY) (\<lambda>_. return (Inr ())))"

subsection \<open>Handlers\<close>

text \<open>
  The identifier (\<^verbatim>\<open>uuid.uuid4()\<close>) and the current time (\<^verbatim>\<open>datetime.utcnow()\<close>, as
  its ISO text) are inputs of the handlers that use them.
\<close>

definition not_found :: "string \<Rightarrow> exn" where
  "not_found item_id = HTTPException 404 (''Item '' @ item_id @ '' not found'')"

definition create_item :: "string \<Rightarrow> string \<Rightarrow> ItemCreate \<Rightarrow> world \<Rightarrow> (exn + ItemResponse) \<times> world" where
  "create_item item_id now item w =
     (let item_data =
            [(''id'', PStr item_id)] @ ItemCreate_model_dump item @
            [(''created_at'', PStr now), (''updated_at'', PStr now)];
          w1 = emit (DbWrite item_id) (w\<lparr>items_db := dict_set (items_db w) item_id item_data\<rparr>)
      in seq (set_in_cache item_id item_data) (\<lambda>_.
         seq (cache_delete ITEMS_LIST_KEY) (\<lambda>_.
         seq (metric RecordItemCreated) (\<lambda>_.
         return (ItemResponse_of (PDict item_data))))) w1)"

text \<open>Python's \<^verbatim>\<open>xs[start:end]\<close>, negative indices counting from the end.\<close>

definition py_slice :: "'a list \<Rightarrow> int \<Rightarrow> int \<Rightarrow> 'a list" where
  "py_slice xs start end =
     (let n = int (length xs);
          clamp = (\<lambda>i. if i < 0 then max (i + n) 0 else min i n);
          s = clamp start;
          e = clamp end
      in if s < e then take (nat (e - s)) (drop (nat s) xs) else [])"

text \<open>A list comprehension whose element expression may raise.\<close>

fun map_exn :: "('a \<Rightarrow> exn + 'b) \<Rightarrow> 'a list \<Rightarrow> exn + 'b list" where
  "map_exn f [] = Inr []"
| "map_exn f (x # xs) =
     (case f x of
        Inl e \<Rightarrow> Inl e
      | Inr y \<Rightarrow> (case map_exn f xs of Inl e \<Rightarrow> Inl e | Inr ys \<Rightarrow> Inr (y # ys)))"

definition list_items :: "int \<Rightarrow> int \<Rightarrow> world \<Rightarrow> (exn + ItemListResponse) \<times> world" where
  "list_items page page_size w =
     (if \<not> (page \<ge> 1) \<or> \<not> (page_size \<ge> 1 \<and> page_size \<le> 100) then raise RequestValidationError w
      else
        let all_items = dict_values (items_db w);
            total = int (length all_items);
            total_pages = (if total > 0 then (total + page_size - 1) div page_size else 1);
            start = (page - 1) * page_size;
            end = start + page_size;
            page_items = py_slice all_items start end
        in return
             (case map_exn (\<lambda>item. ItemResponse_of (PDict item)) page_items of
                Inl e \<Rightarrow> Inl e
              | Inr items \<Rightarrow>
                  Inr \<lparr>lr_items = items, lr_total = total, lr_page = page,
                       lr_page_size = page_size, lr_total_pages = total_pages\<rparr>) w)"

definition get_item :: "string \<Rightarrow> world \<Rightarrow> (exn + ItemResponse) \<times> world" where
  "get_item item_id =
     seq (get_from_cache item_id) (\<lambda>cached.
       if truthy cached then return (ItemResponse_of cached)
       else (\<lambda>w.
         case dict_get (items_db w) item_id of
           None \<Rightarrow> raise (not_found item_id) w
         | Some item_data \<Rightarrow>
             seq (set_in_cache item_id item_data) (\<lambda>_.
             return (ItemResponse_of (PDict item_data))) w))"

text \<open>
  \<^verbatim>\<open>item_data\<close> is the dictionary held by \<^verbatim>\<open>_items_db\<close> itself, so the loop writes
  into the stored item; nothing between the first assignment and
  \<^verbatim>\<open>_items_db[item_id] = item_data\<close> can raise, and the store is written once here.
\<close>

definition update_item :: "string \<Rightarrow> string \<Rightarrow> ItemUpdate \<Rightarrow> world \<Rightarrow> (exn + ItemResponse) \<times> world" where
  "update_item item_id now item w =
     (case dict_get (items_db w) item_id of
        None \<Rightarrow> raise (not_found item_id) w
      | Some item_data0 \<Rightarrow>
          let update_data = ItemUpdate_model_dump_exclude_unset item;
              item_data1 = foldl (\<lambda>d (fld, v). dict_set d fld v) item_data0 update_data;
              item_data = dict_set item_data1 ''updated_at'' (PStr now);
              w1 = emit (DbWrite item_id) (w\<lparr>items_db := dict_set (items_db w) item_id item_data\<rparr>)
          in seq (set_in_cache item_id item_data) (\<lambda>_.
             seq (cache_delete ITEMS_LIST_KEY) (\<lambda>_.
             return (ItemResponse_of (PDict item_data)))) w1)"

definition delete_item :: "string \<Rightarrow> world \<Rightarrow> (exn + unit) \<times> world" where
  "delete_item item_id w =
     (case dict_get (items_db w) item_id of
        None \<Rightarrow> raise (not_found item_id) w
      | Some _ \<Rightarrow>
          let w1 = emit (DbDelete item_id) (w\<lparr>items_db := dict_del (items_db w) item_id\<rparr>)
          in seq (delete_from_cache item_id) (\<lambda>_.
             seq (metric RecordItemDeleted) (\<lambda>_.
             return (Inr ()))) w1)"

subsection \<open>Requests\<close>

text \<open>
  The routes of the router, as one dispatch function, and a run of the service over a
  sequence of requests. An exception ends its request only: the server answers it with an
  error status and goes on with the next request.
\<close>

datatype request =
    Create string string ItemCreate
  | Read string
  | Update string string ItemUpdate
  | Delete string
  | List int int

datatype response = ItemR ItemResponse | ListR ItemListResponse | NoContent

fun handle :: "request \<Rightarrow> world \<Rightarrow> (exn + response) \<times> world" where
  "handle (Create item_id now item) w =
     (case create_item item_id now item w of (res, w') \<Rightarrow> (map_sum id ItemR res, w'))"
| "handle (Read item_id) w =
     (case get_item item_id w of (res, w') \<Rightarrow> (map_sum id ItemR res, w'))"
| "handle (Update item_id now item) w =
     (case update_item item_id now item w of (res, w') \<Rightarrow> (map_sum id ItemR res, w'))"
| "handle (Delete item_id) w =
     (case delete_item item_id w of (res, w') \<Rightarrow> (map_sum id (\<lambda>_. NoContent) res, w'))"
| "handle (List page page_size) w =
     (case list_items page page_size w of (res, w') \<Rightarrow> (map_sum id ListR res, w'))"

fun run :: "request list \<Rightarrow> world \<Rightarrow> (exn + response) list \<times> world" where
  "run [] w = ([], w)"
| "run (q # qs) w =
     (case handle q w of
        (res, w1) \<Rightarrow> (case run qs w1 of (rs, w2) \<Rightarrow> (res # rs, w2)))"

subsection \<open>Start of a process\<close>

text \<open>
  \<^verbatim>\<open>lifespan\<close> in \<^verbatim>\<open>app/main.py\<close>. The module globals are new: an empty \<^verbatim>\<open>_items_db\<close>
  and no cache service. \<^verbatim>\<open>init_cache\<close> creates the service and connects it; an
  exception from it is logged and dropped. The Redis server is not part of the process:
  it keeps the keys it holds, and nothing at start-up removes them.
\<close>

definition startup :: "redis_server \<Rightarrow> world" where
  "startup r = snd (init_cache \<lparr>items_db = [], cache_service = None, redis = r, trace = []\<rparr>)"

section \<open>The Record Store of the specification\<close>

text \<open>
  The operations as the specification words them, on the Record Store alone: there is
  no cache in these definitions. They are what the handlers above are compared with.
  An entity has the shape \<open>{id, name, description, price, quantity, tags, created_at,
  updated_at}\<close>; a partial update applies the fields that are present and then refreshes
  \<open>updated_at\<close>; a list takes the slice \<open>[(page-1)*page_size, page*page_size)\<close> of the
  collection in insertion order, with \<open>ceil(total / page_size)\<close> pages and one page when
  there is no entity.
\<close>

type_synonym entity = "(string \<times> pyval) list"

type_synonym record_store = "(string \<times> entity) list"

definition new_entity :: "string \<Rightarrow> string \<Rightarrow> ItemCreate \<Rightarrow> entity" where
  "new_entity item_id now F =
     [(''id'', PStr item_id),
      (''name'', PStr (ic_name F)),
      (''description'', opt_str (ic_description F)),
      (''price'', PFloat (ic_price F)),
      (''quantity'', PInt (ic_quantity F)),
      (''tags'', PList (map PStr (ic_tags F))),
      (''created_at'', PStr now),
      (''updated_at'', PStr now)]"

definition entity_response :: "string \<Rightarrow> string \<Rightarrow> ItemCreate \<Rightarrow> ItemResponse" where
  "entity_response item_id now F =
     \<lparr>ir_id = item_id, ir_name = ic_name F, ir_description = ic_description F,
      ir_price = ic_price F, ir_quantity = ic_quantity F, ir_tags = ic_tags F,
      ir_created_at = now, ir_updated_at = now\<rparr>"

definition apply_field :: "string \<Rightarrow> ('a \<Rightarrow> pyval) \<Rightarrow> 'a option option \<Rightarrow> entity \<Rightarrow> entity" where
  "apply_field k f x e =
     (case x of
        None \<Rightarrow> e
      | Some None \<Rightarrow> dict_set e k PNone
      | Some (Some v) \<Rightarrow> dict_set e k (f v))"

definition rs_merge :: "entity \<Rightarrow> ItemUpdate \<Rightarrow> string \<Rightarrow> entity" where
  "rs_merge e u now =
     dict_set
       (apply_field ''tags'' (\<lambda>ts. PList (map PStr ts)) (iu_tags u)
       (apply_field ''quantity'' PInt (iu_quantity u)
       (apply_field ''price'' PFloat (iu_price u)
       (apply_field ''description'' PStr (iu_description u)
       (apply_field ''name'' PStr (iu_name u) e)))))
       ''updated_at'' (PStr now)"

definition rs_page :: "record_store \<Rightarrow> int \<Rightarrow> int \<Rightarrow> entity list" where
  "rs_page db page page_size =
     take (nat (page * page_size) - nat ((page - 1) * page_size))
       (drop (nat ((page - 1) * page_size)) (map snd db))"

definition rs_total_pages :: "record_store \<Rightarrow> int \<Rightarrow> int" where
  "rs_total_pages db page_size =
     (if length db = 0 then 1 else \<lceil>real (length db) / real_of_int page_size\<rceil>)"

definition as_item :: "exn + ItemResponse \<Rightarrow> exn + response" where
  "as_item res = map_sum id ItemR res"

fun store_only :: "request \<Rightarrow> record_store \<Rightarrow> (exn + response) \<times> record_store" where
  "store_only (Create item_id now F) db =
     (as_item (ItemResponse_of (PDict (new_entity item_id now F))),
      dict_set db item_id (new_entity item_id now F))"
| "store_only (Read item_id) db =
     (case dict_get db item_id of
        None \<Rightarrow> (Inl (not_found item_id), db)
      | Some e \<Rightarrow> (as_item (ItemResponse_of (PDict e)), db))"
| "store_only (Update item_id now u) db =
     (case dict_get db item_id of
        None \<Rightarrow> (Inl (not_found item_id), db)
      | Some e \<Rightarrow>
          (as_item (ItemResponse_of (PDict (rs_merge e u now))),
           dict_set db item_id (rs_merge e u now)))"
| "store_only (Delete item_id) db =
     (case dict_get db item_id of
        None \<Rightarrow> (Inl (not_found item_id), db)
      | Some e \<Rightarrow> (Inr NoContent, dict_del db item_id))"
| "store_only (List page page_size) db =
     (if page < 1 \<or> page_size < 1 \<or> 100 < page_size then (Inl RequestValidationError, db)
      else
        (case map_exn (\<lambda>e. ItemResponse_of (PDict e)) (rs_page db page page_size) of
           Inl e \<Rightarrow> Inl e
         | Inr items \<Rightarrow>
             Inr (ListR \<lparr>lr_items = items, lr_total = int (length db), lr_page = page,
                         lr_page_size = page_size,
                         lr_total_pages = rs_total_pages db page_size\<rparr>),
         db))"

fun store_only_run :: "request list \<Rightarrow> record_store \<Rightarrow> (exn + response) list \<times> record_store" where
  "store_only_run [] db = ([], db)"
| "store_only_run (q # qs) db =
     (case store_only q db of
        (res, db1) \<Rightarrow> (case store_only_run qs db1 of (rs, db2) \<Rightarrow> (res # rs, db2)))"

section \<open>States of the cache\<close>

text \<open>
  The client is connected when the singleton exists and holds a Redis client. The server
  is down when every command from now on fails, and up when none does. The cache is
  failing when the client is not connected or the server is down.
\<close>

definition connected :: "world \<Rightarrow> bool" where
  "connected w = (case cache_service w of None \<Rightarrow> False | Some c \<Rightarrow> cs_client c \<noteq> None)"

definition redis_down :: "redis_server \<Rightarrow> bool" where
  "redis_down r = (\<forall>n. ncalls r \<le> n \<longrightarrow> faults r n \<noteq> None)"

definition redis_up :: "redis_server \<Rightarrow> bool" where
  "redis_up r = (\<forall>n. ncalls r \<le> n \<longrightarrow> faults r n = None)"

definition cache_failing :: "world \<Rightarrow> bool" where
  "cache_failing w = (\<not> connected w \<or> redis_down (redis w))"

text \<open>The cache is working when the client is connected and the server is up.\<close>

definition healthy :: "world \<Rightarrow> bool" where
  "healthy w = (connected w \<and> redis_up (redis w))"

text \<open>
  The cache agrees with the store when every entry under an item key is the serialized
  item that the store holds under that identifier; the stored items are serializable.
\<close>

definition cache_agrees :: "world \<Rightarrow> bool" where
  "cache_agrees w =
     ((\<forall>item_id t ttl. store (redis w) (get_cache_key item_id) = Some (t, ttl) \<longrightarrow>
         (\<exists>item. dict_get (items_db w) item_id = Some item \<and> t = Dumped (PDict item))) \<and>
      (\<forall>item \<in> set (dict_values (items_db w)). json_serializable (PDict item)))"

text \<open>An item of the store from which a response can be built.\<close>

definition valid_entity :: "entity \<Rightarrow> bool" where
  "valid_entity e = (ItemResponse_validate e \<noteq> None)"

text \<open>
  The exceptions that the store and the boundary account for: a response that cannot be
  built, a query parameter out of bounds, and an HTTP error such as 404.
\<close>

definition store_error :: "exn \<Rightarrow> bool" where
  "store_error x =
     (x = ValidationError \<or> x = RequestValidationError \<or> (\<exists>n d. x = HTTPException n d))"

section \<open>Example states\<close>

text \<open>
  A server that answers every command and holds nothing, a connected client, the state
  after a successful start-up, and the fields of a small item.
\<close>

definition redis_empty :: redis_server where
  "redis_empty = \<lparr>store = Map.empty, faults = (\<lambda>_. None), ncalls = 0\<rparr>"

definition connected_service :: CacheService where
  "connected_service = \<lparr>cs_pool = Some ConnectionPool, cs_client = Some Redis\<rparr>"

definition world0 :: world where
  "world0 = \<lparr>items_db = [], cache_service = Some connected_service, redis = redis_empty, trace = []\<rparr>"

definition item_A :: ItemCreate where
  "item_A = \<lparr>ic_name = ''A'', ic_description = None, ic_price = 1, ic_quantity = 2, ic_tags = []\<rparr>"

definition item_B :: ItemCreate where
  "item_B = \<lparr>ic_name = ''B'', ic_description = Some ''second'', ic_price = 7, ic_quantity = 0,
              ic_tags = [''x'']\<rparr>"

text \<open>The store holds \<open>item_A\<close> under \<open>i1\<close>, and so does the cache.\<close>

definition world_A :: world where
  "world_A =
     \<lparr>items_db = [(''i1'', new_entity ''i1'' ''t0'' item_A)],
      cache_service = Some connected_service,
      redis = redis_empty\<lparr>store :=
        [''item:i1'' \<mapsto> (Dumped (PDict (new_entity ''i1'' ''t0'' item_A)), Some 3600)]\<rparr>,
      trace = []\<rparr>"

text \<open>The store holds \<open>item_A\<close> under \<open>i1\<close>, the cache holds \<open>item_B\<close> under that key.\<close>

definition world_stale :: world where
  "world_stale =
     \<lparr>items_db = [(''i1'', new_entity ''i1'' ''t0'' item_A)],
      cache_service = Some connected_service,
      redis = redis_empty\<lparr>store :=
        [''item:i1'' \<mapsto> (Dumped (PDict (new_entity ''i1'' ''t0'' item_B)), Some 3600)]\<rparr>,
      trace = []\<rparr>"

text \<open>The store holds \<open>item_A\<close> under \<open>i1\<close>, the cache holds nothing.\<close>

definition world_cold :: world where
  "world_cold =
     \<lparr>items_db = [(''i1'', new_entity ''i1'' ''t0'' item_A)],
      cache_service = Some connected_service,
      redis = redis_empty,
      trace = []\<rparr>"

text \<open>As \<open>world0\<close>, with a server that fails every command.\<close>

definition world_down :: world where
  "world_down = world0\<lparr>redis := redis_empty\<lparr>faults := (\<lambda>_. Some ConnectionError)\<rparr>\<rparr>"

text \<open>As \<open>world0\<close>, before \<^verbatim>\<open>connect\<close>: there is no cache service yet.\<close>

definition world_unconnected :: world where
  "world_unconnected = world0\<lparr>cache_service := None\<rparr>"

text \<open>Five items created one after the other in the state after start-up.\<close>

definition five_creates :: "request list" where
  "five_creates =
     [Create ''i1'' ''t1'' item_A, Create ''i2'' ''t2'' item_B, Create ''i3'' ''t3'' item_A,
      Create ''i4'' ''t4'' item_B, Create ''i5'' ''t5'' item_A]"

definition world5 :: world where
  "world5 = snd (run five_creates world0)"

text \<open>One request of every kind on one item, and a read after its deletion.\<close>

definition price_5 :: ItemUpdate where
  "price_5 = \<lparr>iu_name = None, iu_description = None, iu_price = Some (Some 5),
               iu_quantity = None, iu_tags = None\<rparr>"

definition session_requests :: "request list" where
  "session_requests =
     [Create ''i1'' ''t0'' item_A, Read ''i1'', Update ''i1'' ''t1'' price_5, List 1 10,
      Delete ''i1'', Read ''i1'']"

definition item_A_updated :: ItemResponse where
  "item_A_updated =
     \<lparr>ir_id = ''i1'', ir_name = ''A'', ir_description = None, ir_price = 5, ir_quantity = 2,
      ir_tags = [], ir_created_at = ''t0'', ir_updated_at = ''t1''\<rparr>"

definition session_responses :: "(exn + response) list" where
  "session_responses =
     [Inr (ItemR (entity_response ''i1'' ''t0'' item_A)),
      Inr (ItemR (entity_response ''i1'' ''t0'' item_A)),
      Inr (ItemR item_A_updated),
      Inr (ListR \<lparr>lr_items = [item_A_updated], lr_total = 1, lr_page = 1, lr_page_size = 10,
                  lr_total_pages = 1\<rparr>),
      Inr NoContent,
      Inl (HTTPException 404 ''Item i1 not found'')]"

text \<open>
  As \<open>world0\<close>, with a server that fails its third and fourth command and answers all
  others; the state after a create and a delete of the same item there. The create sends
  the first two commands, the delete the next two.
\<close>

definition world_blip :: world where
  "world_blip =
     world0\<lparr>redis := redis_empty\<lparr>faults := (\<lambda>n. if n = 2 \<or> n = 3 then Some ConnectionError else None)\<rparr>\<rparr>"

definition world_after_blip :: world where
  "world_after_blip = snd (run [Create ''i1'' ''t0'' item_A, Delete ''i1''] world_blip)"

text \<open>
  An update whose body is \<^verbatim>\<open>{"name": null}\<close>: the name is set, to \<^verbatim>\<open>None\<close>. A create,
  this update of the created item, and a list of the first page.
\<close>

definition name_null :: ItemUpdate where
  "name_null = \<lparr>iu_name = Some None, iu_description = None, iu_price = None,
                 iu_quantity = None, iu_tags = None\<rparr>"

definition null_name_requests :: "request list" where
  "null_name_requests =
     [Create ''i1'' ''t0'' item_A, Update ''i1'' ''t1'' name_null, List 1 10]"

definition item_A_unnamed :: entity where
  "item_A_unnamed =
     [(''id'', PStr ''i1''), (''name'', PNone), (''description'', PNone), (''price'', PFloat 1),
      (''quantity'', PInt 2), (''tags'', PList []), (''created_at'', PStr ''t0''),
      (''updated_at'', PStr ''t1'')]"



text \<open>
  A process creates an item with a working cache and ends; a new process starts with the
  same server.
\<close>

definition world_restarted :: world where
  "world_restarted = startup (redis (snd (run [Create ''i1'' ''t0'' item_A] world0)))"

text \<open>
  A read and a delete of the item of \<open>world_cold\<close> that interleave at the cache calls of
  the read, every cache call succeeding: the read gets its miss and takes the item from
  the store; the delete runs from start to end; the read goes on and writes the item it
  took to the cache.
\<close>

definition world_raced :: world where
  "world_raced =
     (let w1 = snd (get_from_cache ''i1'' world_cold)
      in case dict_get (items_db w1) ''i1'' of
           None \<Rightarrow> w1
         | Some item_data \<Rightarrow> snd (set_in_cache ''i1'' item_data (snd (delete_item ''i1'' w1))))"
section \<open>What the cache client returns\<close>

lemmas redis_defs =
  redis_PING_def redis_GET_def redis_SET_def redis_SETEX_def redis_DEL_def redis_EXISTS_def tick_def

lemmas client_defs =
  health_check_def CacheService_get_def CacheService_set_def CacheService_delete_def
  CacheService_exists_def except_def

lemma CacheService_set_total: "\<exists>b. fst (CacheService_set self key (Value v) ttl r) = Inr b"
  by (auto simp: client_defs redis_defs split: option.splits sum.splits prod.splits)

lemma CacheService_delete_total: "\<exists>b. fst (CacheService_delete self key r) = Inr b"
  by (auto simp: client_defs redis_defs split: option.splits sum.splits prod.splits)

lemma CacheService_exists_total: "\<exists>b. fst (CacheService_exists self key r) = Inr b"
  by (auto simp: client_defs redis_defs split: option.splits sum.splits prod.splits)

lemma health_check_total: "\<exists>b. fst (health_check self r) = Inr b"
  by (auto simp: client_defs redis_defs split: option.splits sum.splits prod.splits)

text \<open>
  What the client does absorb: a command that fails gives the failure value of every
  operation, an object that \<^verbatim>\<open>json.dumps\<close> rejects with \<^verbatim>\<open>TypeError\<close> gives \<^verbatim>\<open>False\<close>
  from \<^verbatim>\<open>set\<close>, and a stored text that is not JSON gives \<^verbatim>\<open>None\<close> from \<^verbatim>\<open>get\<close>;
  \<^verbatim>\<open>delete\<close>, \<^verbatim>\<open>exists\<close> and \<^verbatim>\<open>health_check\<close> return a value in every case.
\<close>

lemma cache_client_absorbs:
  "(\<exists>b. fst (CacheService_delete self key r) = Inr b) \<and>
   (\<exists>b. fst (CacheService_exists self key r) = Inr b) \<and>
   (\<exists>b. fst (health_check self r) = Inr b) \<and>
   (\<exists>b. fst (CacheService_set self key (Value v) ttl r) = Inr b) \<and>
   (faults r (ncalls r) \<noteq> None \<longrightarrow>
      fst (CacheService_get self key r) = Inr PNone \<and>
      fst (CacheService_set self key (Value v) ttl r) = Inr False \<and>
      fst (CacheService_delete self key r) = Inr False \<and>
      fst (CacheService_exists self key r) = Inr False \<and>
      fst (health_check self r) = Inr False) \<and>
   (\<not> json_serializable v \<longrightarrow> fst (CacheService_set self key (Value v) ttl r) = Inr False) \<and>
   ((\<exists>s t. store r key = Some (Raw s, t)) \<longrightarrow> fst (CacheService_get self key r) = Inr PNone)"
proof -
  have fail: "faults r (ncalls r) \<noteq> None \<longrightarrow>
      fst (CacheService_get self key r) = Inr PNone \<and>
      fst (CacheService_set self key (Value v) ttl r) = Inr False \<and>
      fst (CacheService_delete self key r) = Inr False \<and>
      fst (CacheService_exists self key r) = Inr False \<and>
      fst (health_check self r) = Inr False"
    by (auto simp: client_defs redis_defs split: option.splits)
  have ser: "\<not> json_serializable v \<longrightarrow> fst (CacheService_set self key (Value v) ttl r) = Inr False"
    by (simp add: client_defs)
  have de: "(\<exists>s t. store r key = Some (Raw s, t)) \<longrightarrow> fst (CacheService_get self key r) = Inr PNone"
    by (auto simp: client_defs redis_defs split: option.splits)
  show ?thesis
    using CacheService_set_total CacheService_delete_total
      CacheService_exists_total health_check_total fail ser de
    by blast
qed

text \<open>
  Claim C3 does not hold of \<^verbatim>\<open>set\<close> and \<^verbatim>\<open>get\<close>. The handler of \<^verbatim>\<open>set\<close> lists
  \<^verbatim>\<open>RedisError\<close> and \<^verbatim>\<open>TypeError\<close>, the handler of \<^verbatim>\<open>get\<close> lists \<^verbatim>\<open>RedisError\<close> and
  \<^verbatim>\<open>JSONDecodeError\<close>. With a connected client and a server that answers every command,
  \<^verbatim>\<open>set\<close> raises \<^verbatim>\<open>ValueError\<close> on a list that contains itself and on an integer of
  5000 digits, and \<^verbatim>\<open>RecursionError\<close> on a value nested too deep, and sends nothing to
  the server; \<^verbatim>\<open>get\<close> raises \<^verbatim>\<open>ValueError\<close> on a stored run of 5000 digits and
  \<^verbatim>\<open>RecursionError\<close> on a stored text nested too deep. The claim gives \<^verbatim>\<open>False\<close> and
  \<^verbatim>\<open>None\<close> as the results of these calls.
\<close>

theorem cache_client_propagates:
  "CacheService_set connected_service ''k'' Cyclic (Some 3600) redis_empty =
     (Inl ValueError, redis_empty) \<and>
   CacheService_set connected_service ''k'' HugeInt None redis_empty =
     (Inl ValueError, redis_empty) \<and>
   CacheService_set connected_service ''k'' TooDeep None redis_empty =
     (Inl RecursionError, redis_empty) \<and>
   fst (CacheService_get connected_service ''k''
          (redis_empty\<lparr>store := [''k'' \<mapsto> (HugeDigits, None)]\<rparr>)) = Inl ValueError \<and>
   fst (CacheService_get connected_service ''k''
          (redis_empty\<lparr>store := [''k'' \<mapsto> (DeepText, None)]\<rparr>)) = Inl RecursionError \<and>
   fst (CacheService_set connected_service ''k'' (Value PObject) None redis_empty) = Inr False \<and>
   fst (CacheService_get connected_service ''k''
          (redis_empty\<lparr>store := [''k'' \<mapsto> (Raw ''{oops'', None)]\<rparr>)) = Inr PNone"
  by (simp add: client_defs redis_defs connected_service_def redis_empty_def)


section \<open>Effects of the cache calls on the program state\<close>

lemma seq_Inr: "fst (m w) = Inr a \<Longrightarrow> seq m f w = f a (snd (m w))"
  by (cases "m w") (simp add: seq_def)

lemma seq_const: "\<exists>a. fst (m w) = Inr a \<Longrightarrow> seq m (\<lambda>_. g) w = g (snd (m w))"
  by (cases "m w") (auto simp: seq_def)

lemma cache_set_total: "\<exists>b. fst (cache_set key v ttl w) = Inr b"
  using CacheService_set_total [of "fst (get_cache_service w)" key v ttl "redis (snd (get_cache_service w))"]
  by (auto simp: cache_set_def split: prod.splits)

lemma cache_delete_total: "\<exists>b. fst (cache_delete key w) = Inr b"
  using CacheService_delete_total [of "fst (get_cache_service w)" key "redis (snd (get_cache_service w))"]
  by (auto simp: cache_delete_def split: prod.splits)

lemma db_get_cache_service: "items_db (snd (get_cache_service w)) = items_db w"
  and trace_get_cache_service: "trace (snd (get_cache_service w)) = trace w"
  and redis_get_cache_service: "redis (snd (get_cache_service w)) = redis w"
  by (auto simp: get_cache_service_def split: option.splits)

lemmas gcs_simps = db_get_cache_service trace_get_cache_service redis_get_cache_service

lemma db_cache_get: "items_db (snd (cache_get key w)) = items_db w"
  and trace_cache_get: "trace (snd (cache_get key w)) = trace w @ [CacheGet key]"
  using gcs_simps [of w]
  by (auto simp: cache_get_def emit_def split: prod.splits)

lemma db_cache_set: "items_db (snd (cache_set key v ttl w)) = items_db w"
  and trace_cache_set: "trace (snd (cache_set key v ttl w)) = trace w @ [CacheSet key]"
  using gcs_simps [of w]
  by (auto simp: cache_set_def emit_def split: prod.splits)

lemma db_cache_delete: "items_db (snd (cache_delete key w)) = items_db w"
  and trace_cache_delete: "trace (snd (cache_delete key w)) = trace w @ [CacheDelete key]"
  using gcs_simps [of w]
  by (auto simp: cache_delete_def emit_def split: prod.splits)

lemma set_in_cache_eq: "set_in_cache item_id item w =
    (Inr (), snd (cache_set (get_cache_key item_id) (PDict item) (Some CACHE_TTL) w))"
  using cache_set_total [of "get_cache_key item_id" "PDict item" "Some CACHE_TTL" w]
  by (auto simp: set_in_cache_def seq_def return_def split: prod.splits)

lemma delete_from_cache_eq: "delete_from_cache item_id w =
    (Inr (), snd (cache_delete ITEMS_LIST_KEY (snd (cache_delete (get_cache_key item_id) w))))"
  using cache_delete_total [of "get_cache_key item_id" w]
    cache_delete_total [of ITEMS_LIST_KEY "snd (cache_delete (get_cache_key item_id) w)"]
  by (auto simp: delete_from_cache_def seq_def return_def split: prod.splits)

lemma get_from_cache_eq:
  assumes "fst (cache_get (get_cache_key item_id) w) = Inr c"
  shows "get_from_cache item_id w =
    (if truthy c then (Inr c, emit RecordCacheHit (snd (cache_get (get_cache_key item_id) w)))
     else (Inr PNone, emit RecordCacheMiss (snd (cache_get (get_cache_key item_id) w))))"
  using assms
  by (auto simp: get_from_cache_def seq_def return_def metric_def split: prod.splits)

section \<open>What the handlers return and write\<close>

lemma item_data_eq:
  "[(''id'', PStr item_id)] @ ItemCreate_model_dump F @
     [(''created_at'', PStr now), (''updated_at'', PStr now)] = new_entity item_id now F"
  by (simp add: ItemCreate_model_dump_def new_entity_def)

lemma create_item_eq:
  "create_item item_id now F w =
     (ItemResponse_of (PDict (new_entity item_id now F)),
      emit RecordItemCreated
        (snd (cache_delete ITEMS_LIST_KEY
          (snd (cache_set (get_cache_key item_id) (PDict (new_entity item_id now F)) (Some CACHE_TTL)
            (emit (DbWrite item_id)
              (w\<lparr>items_db := dict_set (items_db w) item_id (new_entity item_id now F)\<rparr>)))))))"
  unfolding create_item_def item_data_eq Let_def
  by (simp add: seq_def set_in_cache_eq metric_def return_def split: prod.splits sum.splits)
     (metis cache_delete_total fst_conv sum.distinct(1))

lemma foldl_dump_set:
  "foldl (\<lambda>d (fld, v). dict_set d fld v) e (dump_set k f x) = apply_field k f x e"
  by (simp add: dump_set_def apply_field_def split: option.splits)

lemma merge_eq:
  "dict_set (foldl (\<lambda>d (fld, v). dict_set d fld v) e (ItemUpdate_model_dump_exclude_unset u))
     ''updated_at'' (PStr now) = rs_merge e u now"
  by (simp add: ItemUpdate_model_dump_exclude_unset_def rs_merge_def foldl_dump_set)

lemma update_item_eq:
  "update_item item_id now u w =
     (case dict_get (items_db w) item_id of
        None \<Rightarrow> (Inl (not_found item_id), w)
      | Some e \<Rightarrow>
          (ItemResponse_of (PDict (rs_merge e u now)),
           snd (cache_delete ITEMS_LIST_KEY
             (snd (cache_set (get_cache_key item_id) (PDict (rs_merge e u now)) (Some CACHE_TTL)
               (emit (DbWrite item_id)
                 (w\<lparr>items_db := dict_set (items_db w) item_id (rs_merge e u now)\<rparr>)))))))"
  unfolding update_item_def merge_eq Let_def
  by (simp add: seq_def set_in_cache_eq raise_def return_def split: prod.splits sum.splits option.splits)
     (metis cache_delete_total fst_conv sum.distinct(1))

lemma delete_item_eq:
  "delete_item item_id w =
     (case dict_get (items_db w) item_id of
        None \<Rightarrow> (Inl (not_found item_id), w)
      | Some e \<Rightarrow>
          (Inr (),
           emit RecordItemDeleted
             (snd (cache_delete ITEMS_LIST_KEY
               (snd (cache_delete (get_cache_key item_id)
                 (emit (DbDelete item_id)
                   (w\<lparr>items_db := dict_del (items_db w) item_id\<rparr>))))))))"
  unfolding delete_item_def Let_def
  by (simp add: seq_def delete_from_cache_eq raise_def return_def metric_def split: option.splits)

lemma get_item_eq:
  assumes "fst (cache_get (get_cache_key item_id) w) = Inr c"
  shows "get_item item_id w =
     (if truthy c then
        (ItemResponse_of c, emit RecordCacheHit (snd (cache_get (get_cache_key item_id) w)))
      else
        (case dict_get (items_db w) item_id of
           None \<Rightarrow>
             (Inl (not_found item_id), emit RecordCacheMiss (snd (cache_get (get_cache_key item_id) w)))
         | Some item \<Rightarrow>
             (ItemResponse_of (PDict item),
              snd (cache_set (get_cache_key item_id) (PDict item) (Some CACHE_TTL)
                (emit RecordCacheMiss (snd (cache_get (get_cache_key item_id) w)))))))"
  unfolding get_item_def
  by (simp add: seq_def get_from_cache_eq [OF assms] set_in_cache_eq raise_def return_def
      emit_def db_cache_get split: option.splits)

section \<open>What the cache calls do to the Redis server\<close>

lemmas world_defs = cache_get_def cache_set_def cache_delete_def get_cache_service_def emit_def
  connected_def CacheService_init_def

lemma cache_get_frame:
  "cache_get key (w\<lparr>items_db := db\<rparr>) =
     (fst (cache_get key w), (snd (cache_get key w))\<lparr>items_db := db\<rparr>)"
  by (simp add: world_defs split: option.splits prod.splits)

lemma store_cache_get: "store (redis (snd (cache_get key w))) = store (redis w)"
  by (simp add: world_defs client_defs redis_defs split: option.splits prod.splits)

lemma cache_get_hit:
  "connected w \<Longrightarrow> faults (redis w) (ncalls (redis w)) = None \<Longrightarrow>
   store (redis w) key = Some (Dumped v, ttl) \<Longrightarrow> json_serializable v \<Longrightarrow>
   fst (cache_get key w) = Inr v"
  by (auto simp: world_defs client_defs redis_defs split: option.splits prod.splits)

lemma cache_get_absent:
  "store (redis w) key = None \<Longrightarrow> fst (cache_get key w) = Inr PNone"
  by (auto simp: world_defs client_defs redis_defs split: option.splits prod.splits)

text \<open>
  A \<^verbatim>\<open>get\<close> returns \<^verbatim>\<open>None\<close> or the value whose serialized text the server holds,
  unless that text is one on which \<^verbatim>\<open>json.loads\<close> raises past the handler.
\<close>

lemma cache_get_cases:
  "fst (cache_get key w) = Inr PNone \<or>
   (\<exists>v ttl. store (redis w) key = Some (Dumped v, ttl) \<and> fst (cache_get key w) = Inr v) \<or>
   (\<exists>ttl. store (redis w) key = Some (HugeDigits, ttl) \<or> store (redis w) key = Some (DeepText, ttl))"
proof (cases "store (redis w) key")
  case None
  then show ?thesis by (simp add: cache_get_absent)
next
  case (Some p)
  obtain t ttl where p: "p = (t, ttl)" by (cases p)
  show ?thesis
  proof (cases t)
    case (Dumped v)
    with Some p show ?thesis
      by (auto simp: world_defs client_defs redis_defs split: option.splits prod.splits)
  next
    case (Raw s)
    with Some p show ?thesis
      by (auto simp: world_defs client_defs redis_defs split: option.splits prod.splits)
  next
    case HugeDigits
    with Some p show ?thesis by simp
  next
    case DeepText
    with Some p show ?thesis by simp
  qed
qed

text \<open>
  The texts the program itself writes are serialized items; on these, on texts that are
  not JSON and on a missing key, \<^verbatim>\<open>get\<close> returns a value.
\<close>

lemma cache_get_total:
  assumes "\<And>ttl. store (redis w) key \<noteq> Some (HugeDigits, ttl)"
    and "\<And>ttl. store (redis w) key \<noteq> Some (DeepText, ttl)"
  shows "\<exists>v. fst (cache_get key w) = Inr v"
  using cache_get_cases [of key w] assms by auto

lemma written_text:
  "connected w \<Longrightarrow> faults (redis w) (ncalls (redis w)) = None \<Longrightarrow>
   fst (cache_set key v ttl w) = Inr True \<Longrightarrow>
   \<exists>t. store (redis (snd (cache_set key v ttl w))) key = Some (Dumped v, t)"
  by (auto simp: world_defs client_defs redis_defs split: option.splits prod.splits if_splits)

lemma ncalls_cache_get:
  "connected w \<Longrightarrow> ncalls (redis (snd (cache_get key w))) = Suc (ncalls (redis w))"
  and faults_cache_get: "faults (redis (snd (cache_get key w))) = faults (redis w)"
  and connected_cache_get: "connected (snd (cache_get key w)) = connected w"
  by (auto simp: world_defs client_defs redis_defs split: option.splits prod.splits)

lemma store_cache_set_cases:
  "store (redis (snd (cache_set key v (Some CACHE_TTL) w))) = store (redis w) \<or>
   store (redis (snd (cache_set key v (Some CACHE_TTL) w))) =
     (store (redis w))(key \<mapsto> (Dumped v, Some CACHE_TTL))"
  by (auto simp: world_defs client_defs redis_defs CACHE_TTL_def split: option.splits prod.splits)

lemma store_cache_set_ok:
  "connected w \<Longrightarrow> faults (redis w) (ncalls (redis w)) = None \<Longrightarrow> json_serializable v \<Longrightarrow>
   store (redis (snd (cache_set key v (Some CACHE_TTL) w))) =
     (store (redis w))(key \<mapsto> (Dumped v, Some CACHE_TTL))"
  by (auto simp: world_defs client_defs redis_defs CACHE_TTL_def split: option.splits prod.splits)

lemma ncalls_cache_set:
  "connected w \<Longrightarrow> json_serializable v \<Longrightarrow>
   ncalls (redis (snd (cache_set key v ttl w))) = Suc (ncalls (redis w))"
  and faults_cache_set: "faults (redis (snd (cache_set key v ttl w))) = faults (redis w)"
  and connected_cache_set: "connected (snd (cache_set key v ttl w)) = connected w"
  by (auto simp: world_defs client_defs redis_defs split: option.splits prod.splits)

lemma store_cache_delete_cases:
  "store (redis (snd (cache_delete key w))) = store (redis w) \<or>
   store (redis (snd (cache_delete key w))) = (store (redis w))(key := None)"
  by (auto simp: world_defs client_defs redis_defs split: option.splits prod.splits)

lemma store_cache_delete_ok:
  "connected w \<Longrightarrow> faults (redis w) (ncalls (redis w)) = None \<Longrightarrow>
   store (redis (snd (cache_delete key w))) = (store (redis w))(key := None)"
  by (auto simp: world_defs client_defs redis_defs split: option.splits prod.splits)

lemma ncalls_cache_delete:
  "connected w \<Longrightarrow> ncalls (redis (snd (cache_delete key w))) = Suc (ncalls (redis w))"
  and faults_cache_delete: "faults (redis (snd (cache_delete key w))) = faults (redis w)"
  and connected_cache_delete: "connected (snd (cache_delete key w)) = connected w"
  by (auto simp: world_defs client_defs redis_defs split: option.splits prod.splits)

lemma key_not_list_key: "get_cache_key item_id \<noteq> ITEMS_LIST_KEY"
  by (simp add: get_cache_key_def CACHE_PREFIX_def ITEMS_LIST_KEY_def)

lemma get_cache_key_inj: "get_cache_key a = get_cache_key b \<longleftrightarrow> a = b"
  by (simp add: get_cache_key_def)

section \<open>The commands a mutation sends\<close>

lemma connected_frame:
  "connected (emit ev w) = connected w"
  "connected (w\<lparr>items_db := db\<rparr>) = connected w"
  by (simp_all add: connected_def emit_def)

text \<open>
  With a connected client a \<^verbatim>\<open>set\<close> of a serializable value and a \<^verbatim>\<open>delete\<close> send one
  command each, which takes effect unless it fails; without a client nothing is sent.
\<close>

lemma store_cache_set_exact:
  "connected w \<Longrightarrow> json_serializable v \<Longrightarrow>
   store (redis (snd (cache_set key v (Some CACHE_TTL) w))) =
     (if faults (redis w) (ncalls (redis w)) = None
      then (store (redis w))(key \<mapsto> (Dumped v, Some CACHE_TTL)) else store (redis w))"
  by (auto simp: world_defs client_defs redis_defs CACHE_TTL_def split: option.splits prod.splits)

lemma store_cache_delete_exact:
  "connected w \<Longrightarrow>
   store (redis (snd (cache_delete key w))) =
     (if faults (redis w) (ncalls (redis w)) = None
      then (store (redis w))(key := None) else store (redis w))"
  by (auto simp: world_defs client_defs redis_defs split: option.splits prod.splits)


lemma redis_cache_delete_unconnected: "\<not> connected w \<Longrightarrow> redis (snd (cache_delete key w)) = redis w"
  by (auto simp: world_defs client_defs split: option.splits prod.splits)

text \<open>
  A \<^verbatim>\<open>set\<close> followed by the \<^verbatim>\<open>delete\<close> of the list key, as \<^verbatim>\<open>create_item\<close> and
  \<^verbatim>\<open>update_item\<close> call them: the first command is the write, the second the deletion.
\<close>

lemma set_then_invalidate:
  assumes c: "connected w" and ser: "json_serializable v"
  shows "store (redis (snd (cache_delete ITEMS_LIST_KEY (snd (cache_set key v (Some CACHE_TTL) w))))) =
      (\<lambda>k. if k = ITEMS_LIST_KEY \<and> faults (redis w) (Suc (ncalls (redis w))) = None then None
           else if k = key \<and> faults (redis w) (ncalls (redis w)) = None
             then Some (Dumped v, Some CACHE_TTL)
           else store (redis w) k)"
    and "ncalls (redis (snd (cache_delete ITEMS_LIST_KEY (snd (cache_set key v (Some CACHE_TTL) w))))) =
      Suc (Suc (ncalls (redis w)))"
proof -
  let ?w2 = "snd (cache_set key v (Some CACHE_TTL) w)"
  have c2: "connected ?w2" using c by (simp add: connected_cache_set)
  have n2: "ncalls (redis ?w2) = Suc (ncalls (redis w))"
    by (rule ncalls_cache_set [OF c ser])
  have f2: "faults (redis ?w2) = faults (redis w)"
    by (rule faults_cache_set)
  show "store (redis (snd (cache_delete ITEMS_LIST_KEY ?w2))) =
      (\<lambda>k. if k = ITEMS_LIST_KEY \<and> faults (redis w) (Suc (ncalls (redis w))) = None then None
           else if k = key \<and> faults (redis w) (ncalls (redis w)) = None
             then Some (Dumped v, Some CACHE_TTL)
           else store (redis w) k)"
    by (rule ext) (simp add: store_cache_delete_exact [OF c2] store_cache_set_exact [OF c ser] n2 f2)
  show "ncalls (redis (snd (cache_delete ITEMS_LIST_KEY ?w2))) = Suc (Suc (ncalls (redis w)))"
    by (simp add: ncalls_cache_delete [OF c2] n2)
qed


lemma delete_then_invalidate:
  assumes c: "connected w"
  shows "store (redis (snd (cache_delete ITEMS_LIST_KEY (snd (cache_delete key w))))) =
      (\<lambda>k. if k = ITEMS_LIST_KEY \<and> faults (redis w) (Suc (ncalls (redis w))) = None then None
           else if k = key \<and> faults (redis w) (ncalls (redis w)) = None then None
           else store (redis w) k)"
    and "ncalls (redis (snd (cache_delete ITEMS_LIST_KEY (snd (cache_delete key w))))) =
      Suc (Suc (ncalls (redis w)))"
proof -
  let ?w2 = "snd (cache_delete key w)"
  have c2: "connected ?w2" using c by (simp add: connected_cache_delete)
  have n2: "ncalls (redis ?w2) = Suc (ncalls (redis w))"
    by (rule ncalls_cache_delete [OF c])
  have f2: "faults (redis ?w2) = faults (redis w)"
    by (rule faults_cache_delete)
  show "store (redis (snd (cache_delete ITEMS_LIST_KEY ?w2))) =
      (\<lambda>k. if k = ITEMS_LIST_KEY \<and> faults (redis w) (Suc (ncalls (redis w))) = None then None
           else if k = key \<and> faults (redis w) (ncalls (redis w)) = None then None
           else store (redis w) k)"
    by (rule ext) (simp add: store_cache_delete_exact [OF c2] store_cache_delete_exact [OF c] n2 f2)
  show "ncalls (redis (snd (cache_delete ITEMS_LIST_KEY ?w2))) = Suc (Suc (ncalls (redis w)))"
    by (simp add: ncalls_cache_delete [OF c2] n2)
qed

lemma delete_then_invalidate_unconnected:
  "\<not> connected w \<Longrightarrow>
   redis (snd (cache_delete ITEMS_LIST_KEY (snd (cache_delete key w)))) = redis w"
  by (simp add: redis_cache_delete_unconnected connected_cache_delete)

section \<open>Dictionaries\<close>

lemmas example_defs = redis_empty_def connected_service_def world0_def world_A_def world_stale_def
  world_cold_def world_down_def world_unconnected_def

lemma dict_get_set: "dict_get (dict_set d k v) k' = (if k' = k then Some v else dict_get d k')"
  by (simp add: dict_get_def dict_set_def update_conv')

lemma dict_get_del: "dict_get (dict_del d k) k' = (if k' = k then None else dict_get d k')"
  by (simp add: dict_get_def dict_del_def delete_conv')

lemma dict_get_apply_field:
  "dict_get (apply_field k f x e) k' =
     (if k' = k then
        (case x of None \<Rightarrow> dict_get e k | Some None \<Rightarrow> Some PNone | Some (Some v) \<Rightarrow> Some (f v))
      else dict_get e k')"
  by (simp add: apply_field_def dict_get_set split: option.splits)

lemma as_str_list_PStr: "as_str_list (PList (map PStr ts)) = Some ts"
  by (simp add: list_all_iff comp_def)

lemma response_new_entity:
  "ItemResponse_of (PDict (new_entity item_id now F)) = Inr (entity_response item_id now F)"
  by (simp add: new_entity_def entity_response_def ItemResponse_validate_def field_def dict_get_def
      opt_str_def as_str_list_PStr del: as_str_list.simps split: option.splits)

section \<open>Create and update: result, store and trace\<close>

lemma dict_get_rs_merge:
  "dict_get (rs_merge e u now) k =
     (if k = ''updated_at'' then Some (PStr now)
      else if k = ''tags'' then
        (case iu_tags u of None \<Rightarrow> dict_get e ''tags'' | Some None \<Rightarrow> Some PNone
         | Some (Some ts) \<Rightarrow> Some (PList (map PStr ts)))
      else if k = ''quantity'' then
        (case iu_quantity u of None \<Rightarrow> dict_get e ''quantity'' | Some None \<Rightarrow> Some PNone
         | Some (Some q) \<Rightarrow> Some (PInt q))
      else if k = ''price'' then
        (case iu_price u of None \<Rightarrow> dict_get e ''price'' | Some None \<Rightarrow> Some PNone
         | Some (Some p) \<Rightarrow> Some (PFloat p))
      else if k = ''description'' then
        (case iu_description u of None \<Rightarrow> dict_get e ''description'' | Some None \<Rightarrow> Some PNone
         | Some (Some d) \<Rightarrow> Some (PStr d))
      else if k = ''name'' then
        (case iu_name u of None \<Rightarrow> dict_get e ''name'' | Some None \<Rightarrow> Some PNone
         | Some (Some n) \<Rightarrow> Some (PStr n))
      else dict_get e k)"
  by (simp add: rs_merge_def dict_get_set dict_get_apply_field split: option.splits)

lemma update_item_fst:
  "dict_get (items_db w) item_id = Some e \<Longrightarrow>
   fst (update_item item_id now u w) = ItemResponse_of (PDict (rs_merge e u now))"
  by (simp add: update_item_eq)

lemma update_item_db:
  "dict_get (items_db w) item_id = Some e \<Longrightarrow>
   items_db (snd (update_item item_id now u w)) = dict_set (items_db w) item_id (rs_merge e u now)"
  by (simp add: update_item_eq db_cache_delete db_cache_set emit_def)

lemma create_item_fst: "fst (create_item item_id now F w) = Inr (entity_response item_id now F)"
  by (simp add: create_item_eq response_new_entity del: ItemResponse_of.simps)

lemma create_item_db:
  "items_db (snd (create_item item_id now F w)) =
     dict_set (items_db w) item_id (new_entity item_id now F)"
  by (simp add: create_item_eq db_cache_delete db_cache_set emit_def)

lemma create_item_trace:
  "trace (snd (create_item item_id now F w)) =
     trace w @ [DbWrite item_id, CacheSet (get_cache_key item_id), CacheDelete ITEMS_LIST_KEY,
                RecordItemCreated]"
  by (simp add: create_item_eq trace_cache_delete trace_cache_set emit_def)

lemma update_item_trace:
  "dict_get (items_db w) item_id = Some e \<Longrightarrow>
   trace (snd (update_item item_id now u w)) =
     trace w @ [DbWrite item_id, CacheSet (get_cache_key item_id), CacheDelete ITEMS_LIST_KEY]"
  by (simp add: update_item_eq trace_cache_delete trace_cache_set emit_def)

lemma serializable_new_entity: "json_serializable (PDict (new_entity item_id now F))"
  by (simp add: new_entity_def opt_str_def list_all_iff split: option.splits)

lemma truthy_new_entity: "truthy (PDict (new_entity item_id now F))"
  by (simp add: new_entity_def)

section \<open>Pagination\<close>

lemma pages_ceiling:
  fixes total page_size :: int
  assumes "0 < page_size"
  shows "(total + page_size - 1) div page_size = \<lceil>real_of_int total / real_of_int page_size\<rceil>"
proof -
  have "(total + page_size - 1) div page_size = - (- total div page_size)"
  proof (cases "total mod page_size = 0")
    case True
    then have d: "page_size dvd total" by (simp add: dvd_eq_mod_eq_0)
    then obtain k where k: "total = page_size * k" by (auto simp: dvd_def)
    have "(page_size * k + page_size - 1) div page_size = k"
    proof -
      have "(page_size * k + (page_size - 1)) div page_size = k + (page_size - 1) div page_size"
        using assms by simp
      also have "(page_size - 1) div page_size = 0"
        using assms by (simp add: div_pos_pos_trivial)
      finally show ?thesis by (simp add: algebra_simps)
    qed
    moreover have "- (- (page_size * k) div page_size) = k"
    proof -
      have "(page_size * (- k)) div page_size = - k"
        using assms by (simp only: nonzero_mult_div_cancel_left) 
      then show ?thesis by simp
    qed
    ultimately show ?thesis using k by simp
  next
    case False
    have "0 \<le> total mod page_size" and m2: "total mod page_size < page_size"
      using assms by simp_all
    with False have m: "0 < total mod page_size" "total mod page_size < page_size"
      by simp_all
    have eq: "total + page_size - 1 = page_size * (total div page_size + 1) + (total mod page_size - 1)"
      by (simp add: algebra_simps)
    have z: "(total mod page_size - 1) div page_size = 0"
    proof (rule div_pos_pos_trivial)
      show "0 \<le> total mod page_size - 1" using m(1) by linarith
      show "total mod page_size - 1 < page_size"
        using pos_mod_bound [OF assms, of total] by linarith
    qed
    have "(page_size * (total div page_size + 1) + (total mod page_size - 1)) div page_size =
        (total div page_size + 1) + (total mod page_size - 1) div page_size"
      using assms by (simp only: div_mult_self2 [of page_size] add.commute) 
    then have "(total + page_size - 1) div page_size = total div page_size + 1"
      unfolding eq z by simp
    moreover have "- total div page_size = - (total div page_size) - 1"
      using assms False by (simp add: zdiv_zminus1_eq_if)
    ultimately show ?thesis by simp
  qed
  then show ?thesis by (simp add: ceiling_divide_eq_div)
qed

lemma py_slice_page:
  assumes "0 \<le> start" "1 \<le> n"
  shows "py_slice xs start (start + n) = take (nat n) (drop (nat start) xs)"
proof (cases "start < int (length xs)")
  case True
  show ?thesis
  proof (cases "start + n \<le> int (length xs)")
    case True
    with \<open>start < int (length xs)\<close> assms show ?thesis
      by (simp add: py_slice_def Let_def min_def)
  next
    case False
    then have "length (drop (nat start) xs) \<le> nat n"
      using assms by simp
    then have "take (nat n) (drop (nat start) xs) = drop (nat start) xs"
      by simp
    moreover have "py_slice xs start (start + n) =
        take (nat (int (length xs) - start)) (drop (nat start) xs)"
      using False True assms by (simp add: py_slice_def Let_def min_def)
    moreover have "take (nat (int (length xs) - start)) (drop (nat start) xs) = drop (nat start) xs"
      using assms by simp
    ultimately show ?thesis by simp
  qed
next
  case False
  with assms show ?thesis
    by (simp add: py_slice_def Let_def min_def)
qed

lemma rs_page_eq:
  assumes "1 \<le> page" "1 \<le> page_size"
  shows "rs_page db page page_size =
    take (nat page_size) (drop (nat ((page - 1) * page_size)) (dict_values db))"
proof -
  have "nat (page * page_size) - nat ((page - 1) * page_size) = nat page_size"
  proof -
    have "0 \<le> (page - 1) * page_size" using assms by simp
    moreover have "page * page_size = (page - 1) * page_size + page_size"
      by (simp add: algebra_simps)
    ultimately show ?thesis using assms by (simp add: nat_add_distrib)
  qed
  then show ?thesis by (simp add: rs_page_def dict_values_def)
qed

lemma map_exn_valid:
  "list_all valid_entity es \<Longrightarrow>
   \<exists>rs. map_exn (\<lambda>e. ItemResponse_of (PDict e)) es = Inr rs \<and>
        map Inr rs = map (\<lambda>e. ItemResponse_of (PDict e)) es"
proof (induction es)
  case Nil
  then show ?case by simp
next
  case (Cons e es)
  then obtain rs where rs: "map_exn (\<lambda>e. ItemResponse_of (PDict e)) es = Inr rs"
    "map Inr rs = map (\<lambda>e. ItemResponse_of (PDict e)) es"
    by auto
  from Cons.prems obtain r where r: "ItemResponse_validate e = Some r"
    by (auto simp: valid_entity_def)
  show ?case
    using rs r by simp
qed

lemma list_items_eq:
  assumes "1 \<le> page" "1 \<le> page_size" "page_size \<le> 100"
  shows "list_items page page_size w =
    (case map_exn (\<lambda>e. ItemResponse_of (PDict e))
            (take (nat page_size) (drop (nat ((page - 1) * page_size)) (dict_values (items_db w)))) of
       Inl e \<Rightarrow> Inl e
     | Inr items \<Rightarrow>
         Inr \<lparr>lr_items = items, lr_total = int (length (items_db w)), lr_page = page,
              lr_page_size = page_size,
              lr_total_pages =
                (if length (items_db w) = 0 then 1
                 else \<lceil>real (length (items_db w)) / real_of_int page_size\<rceil>)\<rparr>, w)"
proof -
  have s: "py_slice (dict_values (items_db w)) ((page - 1) * page_size)
      ((page - 1) * page_size + page_size) =
      take (nat page_size) (drop (nat ((page - 1) * page_size)) (dict_values (items_db w)))"
    using assms by (intro py_slice_page) simp_all
  have c: "(int (length (items_db w)) + page_size - 1) div page_size =
      \<lceil>real (length (items_db w)) / real_of_int page_size\<rceil>"
    using pages_ceiling [of page_size "int (length (items_db w))"] assms by simp
  have l: "length (dict_values (items_db w)) = length (items_db w)"
    by (simp add: dict_values_def)
  show ?thesis
    using assms unfolding list_items_def Let_def s l
    by (simp add: return_def c split: sum.splits)
qed

section \<open>A failing cache\<close>

lemma cache_failing_get:
  assumes "cache_failing w"
  shows "fst (cache_get key w) = Inr PNone" and "cache_failing (snd (cache_get key w))"
  using assms
  by (auto simp: cache_failing_def redis_down_def world_defs client_defs redis_defs
      split: option.splits prod.splits)

lemma cache_failing_set:
  assumes "cache_failing w"
  shows "fst (cache_set key v ttl w) = Inr False" and "cache_failing (snd (cache_set key v ttl w))"
  using assms
  by (auto simp: cache_failing_def redis_down_def world_defs client_defs redis_defs
      split: option.splits prod.splits)

lemma cache_failing_delete:
  assumes "cache_failing w"
  shows "fst (cache_delete key w) = Inr False" and "cache_failing (snd (cache_delete key w))"
  using assms
  by (auto simp: cache_failing_def redis_down_def world_defs client_defs redis_defs
      split: option.splits prod.splits)

lemma cache_failing_frame:
  "cache_failing (emit ev w) = cache_failing w"
  "cache_failing (w\<lparr>items_db := db\<rparr>) = cache_failing w"
  by (simp_all add: cache_failing_def connected_def emit_def)


lemma items_db_emit: "items_db (emit ev w) = items_db w"
  by (simp add: emit_def)

lemma handle_store_only:
  assumes "cache_failing w"
  shows "fst (handle q w) = fst (store_only q (items_db w)) \<and>
    items_db (snd (handle q w)) = snd (store_only q (items_db w)) \<and>
    cache_failing (snd (handle q w))"
proof (cases q)
  case (Create item_id now F)
  show ?thesis
    unfolding Create
    by (simp add: create_item_eq as_item_def db_cache_delete db_cache_set items_db_emit
        cache_failing_frame cache_failing_set cache_failing_delete assms
        del: ItemResponse_of.simps)
next
  case (Read item_id)
  note c = cache_failing_get [OF assms, of "get_cache_key item_id"]
  have s: "cache_failing (emit RecordCacheMiss (snd (cache_get (get_cache_key item_id) w)))"
    using c(2) by (simp add: cache_failing_frame)
  show ?thesis
    unfolding Read
    by (simp add: get_item_eq [OF c(1)] as_item_def db_cache_get db_cache_set s items_db_emit
        cache_failing_set split: option.splits del: ItemResponse_of.simps)
next
  case (Update item_id now u)
  show ?thesis
    unfolding Update
    by (simp add: update_item_eq as_item_def db_cache_delete db_cache_set items_db_emit
        cache_failing_frame cache_failing_set cache_failing_delete assms
        split: option.splits del: ItemResponse_of.simps)
next
  case (Delete item_id)
  show ?thesis
    unfolding Delete
    by (simp add: delete_item_eq db_cache_delete items_db_emit
        cache_failing_frame cache_failing_delete assms
        split: option.splits)
next
  case (List page page_size)
  show ?thesis
  proof (cases "1 \<le> page \<and> 1 \<le> page_size \<and> page_size \<le> 100")
    case True
    then show ?thesis
      unfolding List
      by (simp add: list_items_eq rs_page_eq rs_total_pages_def assms split: sum.splits
          del: ItemResponse_of.simps)
  next
    case False
    then show ?thesis
      unfolding List
      by (auto simp: list_items_def raise_def assms)
  qed
qed

lemma run_store_only:
  "cache_failing w \<Longrightarrow>
   fst (run qs w) = fst (store_only_run qs (items_db w)) \<and>
   items_db (snd (run qs w)) = snd (store_only_run qs (items_db w)) \<and>
   cache_failing (snd (run qs w))"
proof (induction qs arbitrary: w)
  case Nil
  then show ?case by simp
next
  case (Cons q qs)
  from handle_store_only [OF Cons.prems, of q]
  have h: "fst (handle q w) = fst (store_only q (items_db w))"
    "items_db (snd (handle q w)) = snd (store_only q (items_db w))"
    "cache_failing (snd (handle q w))"
    by simp_all
  from Cons.IH [OF h(3)] h(1,2)
  show ?case
    by (simp add: split_beta)
qed

section \<open>A working cache\<close>

lemma healthy_frame:
  "healthy (emit ev w) = healthy w"
  "healthy (w\<lparr>items_db := db\<rparr>) = healthy w"
  by (simp_all add: healthy_def connected_def emit_def)

lemma healthy_now: "healthy w \<Longrightarrow> connected w \<and> faults (redis w) (ncalls (redis w)) = None"
  by (simp add: healthy_def redis_up_def)

lemma healthy_cache_get: "healthy w \<Longrightarrow> healthy (snd (cache_get key w))"
  by (auto simp: healthy_def redis_up_def world_defs client_defs redis_defs
      split: option.splits prod.splits)

lemma healthy_cache_set: "healthy w \<Longrightarrow> healthy (snd (cache_set key v ttl w))"
  by (auto simp: healthy_def redis_up_def world_defs client_defs redis_defs
      split: option.splits prod.splits)

lemma healthy_cache_delete: "healthy w \<Longrightarrow> healthy (snd (cache_delete key w))"
  by (auto simp: healthy_def redis_up_def world_defs client_defs redis_defs
      split: option.splits prod.splits)

lemma healthy_store_set:
  "healthy w \<Longrightarrow> json_serializable v \<Longrightarrow>
   store (redis (snd (cache_set key v (Some CACHE_TTL) w))) =
     (store (redis w))(key \<mapsto> (Dumped v, Some CACHE_TTL))"
  using healthy_now [of w] by (simp add: store_cache_set_ok)

lemma healthy_store_delete:
  "healthy w \<Longrightarrow> store (redis (snd (cache_delete key w))) = (store (redis w))(key := None)"
  using healthy_now [of w] by (simp add: store_cache_delete_ok)

lemma healthy_cache_get_value:
  assumes "healthy w" "cache_agrees w"
  shows "fst (cache_get (get_cache_key item_id) w) = Inr PNone \<or>
    (\<exists>item. dict_get (items_db w) item_id = Some item \<and>
       fst (cache_get (get_cache_key item_id) w) = Inr (PDict item))"
  using cache_get_cases [of "get_cache_key item_id" w] assms(2)
  by (auto simp: cache_agrees_def)

lemma serializable_dict_set:
  "json_serializable (PDict d) \<Longrightarrow> json_serializable v \<Longrightarrow> json_serializable (PDict (dict_set d k v))"
  unfolding dict_set_def
  by (induction d) (auto split: if_splits)

lemma serializable_apply_field:
  "json_serializable (PDict e) \<Longrightarrow> (\<And>v. json_serializable (f v)) \<Longrightarrow>
   json_serializable (PDict (apply_field k f x e))"
proof -
  assume e: "json_serializable (PDict e)" and f: "\<And>v. json_serializable (f v)"
  have n: "json_serializable PNone" by simp
  show ?thesis
    using serializable_dict_set [OF e n] serializable_dict_set [OF e f] e
    by (simp add: apply_field_def split: option.splits del: json_serializable.simps)
qed

lemma serializable_rs_merge:
  "json_serializable (PDict e) \<Longrightarrow> json_serializable (PDict (rs_merge e u now))"
  unfolding rs_merge_def
  by (intro serializable_dict_set serializable_apply_field) (simp_all add: list_all_iff)

lemma values_dict_set: "set (dict_values (dict_set d k v)) \<subseteq> insert v (set (dict_values d))"
  unfolding dict_set_def dict_values_def
  by (induction d) (auto split: if_splits)

lemma values_dict_del: "set (dict_values (dict_del d k)) \<subseteq> set (dict_values d)"
  unfolding dict_del_def dict_values_def
  by (induction d) auto

lemma dict_get_in_values: "dict_get d k = Some v \<Longrightarrow> v \<in> set (dict_values d)"
  unfolding dict_get_def dict_values_def
  by (metis map_of_SomeD set_zip_rightD zip_map_fst_snd)


lemma agrees_after_set:
  assumes a: "cache_agrees w" and h: "healthy w" and ser: "json_serializable (PDict item)"
    and db: "items_db w' = dict_set (items_db w) item_id item"
    and st: "store (redis w') = (store (redis w))(get_cache_key item_id \<mapsto> (Dumped (PDict item), ttl),
         ITEMS_LIST_KEY := None) \<or>
       store (redis w') = (store (redis w))(get_cache_key item_id \<mapsto> (Dumped (PDict item), ttl))"
  shows "cache_agrees w'"
  unfolding cache_agrees_def
proof (intro conjI allI impI ballI)
  fix i t tl
  assume "store (redis w') (get_cache_key i) = Some (t, tl)"
  then have c: "(if i = item_id then Some (Dumped (PDict item), ttl)
                 else store (redis w) (get_cache_key i)) = Some (t, tl)"
    using st key_not_list_key [of i] by (auto simp: get_cache_key_inj split: if_splits)
  show "\<exists>it. dict_get (items_db w') i = Some it \<and> t = Dumped (PDict it)"
  proof (cases "i = item_id")
    case True
    with c show ?thesis by (simp add: db dict_get_set)
  next
    case False
    with c a show ?thesis by (simp add: db dict_get_set cache_agrees_def)
  qed
next
  fix it
  assume "it \<in> set (dict_values (items_db w'))"
  then have "it = item \<or> it \<in> set (dict_values (items_db w))"
    using values_dict_set [of "items_db w" item_id item] db by auto
  then show "json_serializable (PDict it)"
    using ser a by (auto simp: cache_agrees_def)
qed

lemma agrees_after_delete:
  assumes a: "cache_agrees w"
    and db: "items_db w' = dict_del (items_db w) item_id"
    and st: "store (redis w') = (store (redis w))(get_cache_key item_id := None, ITEMS_LIST_KEY := None)"
  shows "cache_agrees w'"
  unfolding cache_agrees_def
proof (intro conjI allI impI ballI)
  fix i t tl
  assume "store (redis w') (get_cache_key i) = Some (t, tl)"
  then have c: "i \<noteq> item_id" "store (redis w) (get_cache_key i) = Some (t, tl)"
    using st key_not_list_key [of i] by (auto simp: get_cache_key_inj split: if_splits)
  with a show "\<exists>it. dict_get (items_db w') i = Some it \<and> t = Dumped (PDict it)"
    by (simp add: db dict_get_del cache_agrees_def)
next
  fix it
  assume "it \<in> set (dict_values (items_db w'))"
  then have "it \<in> set (dict_values (items_db w))"
    using values_dict_del [of "items_db w" item_id] db by auto
  then show "json_serializable (PDict it)"
    using a by (auto simp: cache_agrees_def)
qed

lemma agrees_same:
  "cache_agrees w \<Longrightarrow> items_db w' = items_db w \<Longrightarrow> store (redis w') = store (redis w) \<Longrightarrow>
   cache_agrees w'"
  by (simp add: cache_agrees_def)


lemma dict_set_same: "dict_get d k = Some v \<Longrightarrow> dict_set d k v = d"
  unfolding dict_get_def dict_set_def
  by (induction d) (auto split: if_splits)

lemma redis_emit: "redis (emit ev w) = redis w"
  by (simp add: emit_def)

lemma create_item_healthy:
  assumes h: "healthy w" and a: "cache_agrees w"
  shows "healthy (snd (create_item item_id now F w)) \<and> cache_agrees (snd (create_item item_id now F w))"
proof -
  let ?e = "new_entity item_id now F"
  let ?w1 = "emit (DbWrite item_id) (w\<lparr>items_db := dict_set (items_db w) item_id ?e\<rparr>)"
  let ?w2 = "snd (cache_set (get_cache_key item_id) (PDict ?e) (Some CACHE_TTL) ?w1)"
  let ?w3 = "snd (cache_delete ITEMS_LIST_KEY ?w2)"
  have fin: "snd (create_item item_id now F w) = emit RecordItemCreated ?w3"
    by (simp add: create_item_eq)
  have h1: "healthy ?w1" using h by (simp add: healthy_frame)
  have h2: "healthy ?w2" using h1 by (rule healthy_cache_set)
  have h3: "healthy ?w3" using h2 by (rule healthy_cache_delete)
  have s2: "store (redis ?w2) =
      (store (redis w))(get_cache_key item_id \<mapsto> (Dumped (PDict ?e), Some CACHE_TTL))"
    using healthy_store_set [OF h1 serializable_new_entity, of "get_cache_key item_id" item_id now F]
    by (simp add: redis_emit)
  have s3: "store (redis ?w3) =
      (store (redis w))(get_cache_key item_id \<mapsto> (Dumped (PDict ?e), Some CACHE_TTL),
         ITEMS_LIST_KEY := None)"
    using healthy_store_delete [OF h2, of ITEMS_LIST_KEY] s2 by simp
  have db: "items_db (emit RecordItemCreated ?w3) = dict_set (items_db w) item_id ?e"
    by (simp add: items_db_emit db_cache_delete db_cache_set)
  have "cache_agrees (emit RecordItemCreated ?w3)"
    by (rule agrees_after_set [OF a h serializable_new_entity db, where ttl = "Some CACHE_TTL"])
      (simp add: redis_emit s3)
  then show ?thesis
    using h3 by (simp add: fin healthy_frame)
qed

lemma update_item_healthy:
  assumes h: "healthy w" and a: "cache_agrees w"
  shows "healthy (snd (update_item item_id now u w)) \<and> cache_agrees (snd (update_item item_id now u w))"
proof (cases "dict_get (items_db w) item_id")
  case None
  then show ?thesis using h a by (simp add: update_item_eq)
next
  case (Some e0)
  let ?e = "rs_merge e0 u now"
  let ?w1 = "emit (DbWrite item_id) (w\<lparr>items_db := dict_set (items_db w) item_id ?e\<rparr>)"
  let ?w2 = "snd (cache_set (get_cache_key item_id) (PDict ?e) (Some CACHE_TTL) ?w1)"
  let ?w3 = "snd (cache_delete ITEMS_LIST_KEY ?w2)"
  have fin: "snd (update_item item_id now u w) = ?w3"
    by (simp add: update_item_eq Some)
  have ser0: "json_serializable (PDict e0)"
    using a dict_get_in_values [OF Some] by (auto simp: cache_agrees_def)
  have ser: "json_serializable (PDict ?e)"
    using ser0 by (rule serializable_rs_merge)
  have h1: "healthy ?w1" using h by (simp add: healthy_frame)
  have h2: "healthy ?w2" using h1 by (rule healthy_cache_set)
  have h3: "healthy ?w3" using h2 by (rule healthy_cache_delete)
  have s2: "store (redis ?w2) =
      (store (redis w))(get_cache_key item_id \<mapsto> (Dumped (PDict ?e), Some CACHE_TTL))"
    using healthy_store_set [OF h1 ser, of "get_cache_key item_id"]
    by (simp add: redis_emit)
  have s3: "store (redis ?w3) =
      (store (redis w))(get_cache_key item_id \<mapsto> (Dumped (PDict ?e), Some CACHE_TTL),
         ITEMS_LIST_KEY := None)"
    using healthy_store_delete [OF h2, of ITEMS_LIST_KEY] s2 by simp
  have db: "items_db ?w3 = dict_set (items_db w) item_id ?e"
    by (simp add: items_db_emit db_cache_delete db_cache_set)
  have "cache_agrees ?w3"
    by (rule agrees_after_set [OF a h ser db, where ttl = "Some CACHE_TTL"]) (simp add: s3)
  then show ?thesis
    using h3 by (simp add: fin)
qed

lemma delete_item_healthy:
  assumes h: "healthy w" and a: "cache_agrees w"
  shows "healthy (snd (delete_item item_id w)) \<and> cache_agrees (snd (delete_item item_id w))"
proof (cases "dict_get (items_db w) item_id")
  case None
  then show ?thesis using h a by (simp add: delete_item_eq)
next
  case (Some e0)
  let ?w1 = "emit (DbDelete item_id) (w\<lparr>items_db := dict_del (items_db w) item_id\<rparr>)"
  let ?w2 = "snd (cache_delete (get_cache_key item_id) ?w1)"
  let ?w3 = "snd (cache_delete ITEMS_LIST_KEY ?w2)"
  have fin: "snd (delete_item item_id w) = emit RecordItemDeleted ?w3"
    by (simp add: delete_item_eq Some)
  have h1: "healthy ?w1" using h by (simp add: healthy_frame)
  have h2: "healthy ?w2" using h1 by (rule healthy_cache_delete)
  have h3: "healthy ?w3" using h2 by (rule healthy_cache_delete)
  have s2: "store (redis ?w2) = (store (redis w))(get_cache_key item_id := None)"
    using healthy_store_delete [OF h1, of "get_cache_key item_id"] by (simp add: redis_emit)
  have s3: "store (redis ?w3) =
      (store (redis w))(get_cache_key item_id := None, ITEMS_LIST_KEY := None)"
    using healthy_store_delete [OF h2, of ITEMS_LIST_KEY] s2 by simp
  have db: "items_db (emit RecordItemDeleted ?w3) = dict_del (items_db w) item_id"
    by (simp add: items_db_emit db_cache_delete)
  have "cache_agrees (emit RecordItemDeleted ?w3)"
    by (rule agrees_after_delete [OF a db]) (simp add: redis_emit s3)
  then show ?thesis
    using h3 by (simp add: fin healthy_frame)
qed

lemma get_item_healthy:
  assumes h: "healthy w" and a: "cache_agrees w"
  shows "fst (get_item item_id w) =
      (case dict_get (items_db w) item_id of
         None \<Rightarrow> Inl (not_found item_id)
       | Some e \<Rightarrow> ItemResponse_of (PDict e)) \<and>
    items_db (snd (get_item item_id w)) = items_db w \<and>
    healthy (snd (get_item item_id w)) \<and> cache_agrees (snd (get_item item_id w))"
proof -
  let ?k = "get_cache_key item_id"
  let ?g = "snd (cache_get ?k w)"
  have hg: "healthy ?g" using h by (rule healthy_cache_get)
  have hm: "healthy (emit RecordCacheMiss ?g)" using hg by (simp add: healthy_frame)
  from healthy_cache_get_value [OF h a, of item_id]
  consider (hit) item where "dict_get (items_db w) item_id = Some item"
      "fst (cache_get ?k w) = Inr (PDict item)" "truthy (PDict item)"
    | (miss) c where "fst (cache_get ?k w) = Inr c" "\<not> truthy c"
    by (metis truthy.simps(1))
  then show ?thesis
  proof cases
    case hit
    have "cache_agrees (emit RecordCacheHit ?g)"
      by (rule agrees_same [OF a]) (simp_all add: items_db_emit db_cache_get redis_emit store_cache_get)
    then show ?thesis
      using hit hg
      by (simp add: get_item_eq [OF hit(2)] items_db_emit db_cache_get healthy_frame
          del: ItemResponse_of.simps truthy.simps)
  next
    case miss
    show ?thesis
    proof (cases "dict_get (items_db w) item_id")
      case None
      have "cache_agrees (emit RecordCacheMiss ?g)"
        by (rule agrees_same [OF a]) (simp_all add: items_db_emit db_cache_get redis_emit store_cache_get)
      then show ?thesis
        using miss None hm
        by (simp add: get_item_eq [OF miss(1)] items_db_emit db_cache_get)
    next
      case (Some item)
      let ?w2 = "snd (cache_set ?k (PDict item) (Some CACHE_TTL) (emit RecordCacheMiss ?g))"
      have ser: "json_serializable (PDict item)"
        using a dict_get_in_values [OF Some] by (auto simp: cache_agrees_def)
      have s2: "store (redis ?w2) = (store (redis w))(?k \<mapsto> (Dumped (PDict item), Some CACHE_TTL))"
        using healthy_store_set [OF hm ser, of ?k] by (simp add: redis_emit store_cache_get)
      have same: "dict_set (items_db w) item_id item = items_db w"
        using Some by (rule dict_set_same)
      have db: "items_db ?w2 = dict_set (items_db w) item_id item"
        by (simp add: same db_cache_set items_db_emit db_cache_get)
      have "cache_agrees ?w2"
        by (rule agrees_after_set [OF a h ser db, where ttl = "Some CACHE_TTL"]) (simp add: s2)
      then show ?thesis
        using miss Some healthy_cache_set [OF hm, of ?k "PDict item" "Some CACHE_TTL"]
        by (simp add: get_item_eq [OF miss(1)] db_cache_set items_db_emit db_cache_get
            del: ItemResponse_of.simps)
    qed
  qed
qed

lemma handle_healthy:
  assumes h: "healthy w" and a: "cache_agrees w"
  shows "fst (handle q w) = fst (store_only q (items_db w)) \<and>
    items_db (snd (handle q w)) = snd (store_only q (items_db w)) \<and>
    healthy (snd (handle q w)) \<and> cache_agrees (snd (handle q w))"
proof (cases q)
  case (Create item_id now F)
  show ?thesis
    unfolding Create using create_item_healthy [OF h a, of item_id now F]
    by (simp add: split_beta create_item_fst create_item_db as_item_def response_new_entity
        del: ItemResponse_of.simps)
next
  case (Read item_id)
  show ?thesis
    unfolding Read using get_item_healthy [OF h a, of item_id]
    by (simp add: split_beta as_item_def split: option.splits del: ItemResponse_of.simps)
next
  case (Update item_id now u)
  show ?thesis
  proof (cases "dict_get (items_db w) item_id")
    case None
    then show ?thesis
      unfolding Update using h a by (simp add: update_item_eq)
  next
    case (Some e)
    show ?thesis
      unfolding Update using update_item_healthy [OF h a, of item_id now u]
      by (simp add: split_beta as_item_def update_item_fst [OF Some] update_item_db [OF Some] Some
          del: ItemResponse_of.simps)
  qed
next
  case (Delete item_id)
  show ?thesis
  proof (cases "dict_get (items_db w) item_id")
    case None
    then show ?thesis
      unfolding Delete using h a by (simp add: delete_item_eq)
  next
    case (Some e)
    have r: "fst (delete_item item_id w) = Inr ()"
      "items_db (snd (delete_item item_id w)) = dict_del (items_db w) item_id"
      by (simp_all add: delete_item_eq Some items_db_emit db_cache_delete)
    show ?thesis
      unfolding Delete using delete_item_healthy [OF h a, of item_id] r
      by (simp add: split_beta Some)
  qed
next
  case (List page page_size)
  show ?thesis
  proof (cases "1 \<le> page \<and> 1 \<le> page_size \<and> page_size \<le> 100")
    case True
    then show ?thesis
      unfolding List
      by (simp add: list_items_eq rs_page_eq rs_total_pages_def h a split: sum.splits
          del: ItemResponse_of.simps)
  next
    case False
    then show ?thesis
      unfolding List
      by (auto simp: list_items_def raise_def h a)
  qed
qed

lemma run_healthy:
  "healthy w \<Longrightarrow> cache_agrees w \<Longrightarrow>
   fst (run qs w) = fst (store_only_run qs (items_db w)) \<and>
   items_db (snd (run qs w)) = snd (store_only_run qs (items_db w)) \<and>
   healthy (snd (run qs w)) \<and> cache_agrees (snd (run qs w))"
proof (induction qs arbitrary: w)
  case Nil
  then show ?case by simp
next
  case (Cons q qs)
  from handle_healthy [OF Cons.prems, of q]
  have h: "fst (handle q w) = fst (store_only q (items_db w))"
    "items_db (snd (handle q w)) = snd (store_only q (items_db w))"
    "healthy (snd (handle q w))" "cache_agrees (snd (handle q w))"
    by simp_all
  from Cons.IH [OF h(3,4)] h(1,2)
  show ?case
    by (simp add: split_beta)
qed

lemma world0_healthy: "healthy world0" and world0_agrees: "cache_agrees world0"
  by (simp_all add: healthy_def connected_def redis_up_def cache_agrees_def example_defs
      dict_values_def)

lemma world_A_healthy: "healthy world_A"
  by (simp add: healthy_def connected_def redis_up_def example_defs)

lemma world_A_agrees: "cache_agrees world_A"
  by (auto simp: cache_agrees_def example_defs dict_values_def dict_get_def get_cache_key_def
      CACHE_PREFIX_def new_entity_def opt_str_def list_all_iff split: if_splits option.splits)

section \<open>What a mutation leaves on the Redis server\<close>




lemma update_item_redis:
  assumes c: "connected w" and e: "dict_get (items_db w) item_id = Some e"
    and ser: "json_serializable (PDict e)"
  shows "store (redis (snd (update_item item_id now u w))) =
      (\<lambda>k. if k = ITEMS_LIST_KEY \<and> faults (redis w) (Suc (ncalls (redis w))) = None then None
           else if k = get_cache_key item_id \<and> faults (redis w) (ncalls (redis w)) = None
             then Some (Dumped (PDict (rs_merge e u now)), Some CACHE_TTL)
           else store (redis w) k)"
    and "ncalls (redis (snd (update_item item_id now u w))) = Suc (Suc (ncalls (redis w)))"
proof -
  let ?w1 = "emit (DbWrite item_id)
    (w\<lparr>items_db := dict_set (items_db w) item_id (rs_merge e u now)\<rparr>)"
  have c1: "connected ?w1" and r1: "redis ?w1 = redis w"
    using c by (simp_all add: connected_frame redis_emit)
  note s = set_then_invalidate [OF c1 serializable_rs_merge [OF ser], of "get_cache_key item_id" u now,
      unfolded r1]
  show "store (redis (snd (update_item item_id now u w))) =
      (\<lambda>k. if k = ITEMS_LIST_KEY \<and> faults (redis w) (Suc (ncalls (redis w))) = None then None
           else if k = get_cache_key item_id \<and> faults (redis w) (ncalls (redis w)) = None
             then Some (Dumped (PDict (rs_merge e u now)), Some CACHE_TTL)
           else store (redis w) k)"
    by (simp add: update_item_eq e s(1))
  show "ncalls (redis (snd (update_item item_id now u w))) = Suc (Suc (ncalls (redis w)))"
    by (simp add: update_item_eq e s(2))
qed

lemma delete_item_redis:
  assumes c: "connected w" and e: "dict_get (items_db w) item_id = Some e"
  shows "store (redis (snd (delete_item item_id w))) =
      (\<lambda>k. if k = ITEMS_LIST_KEY \<and> faults (redis w) (Suc (ncalls (redis w))) = None then None
           else if k = get_cache_key item_id \<and> faults (redis w) (ncalls (redis w)) = None then None
           else store (redis w) k)"
    and "ncalls (redis (snd (delete_item item_id w))) = Suc (Suc (ncalls (redis w)))"
proof -
  let ?w1 = "emit (DbDelete item_id) (w\<lparr>items_db := dict_del (items_db w) item_id\<rparr>)"
  have c1: "connected ?w1" and r1: "redis ?w1 = redis w"
    using c by (simp_all add: connected_frame redis_emit)
  note s = delete_then_invalidate [OF c1, of "get_cache_key item_id", unfolded r1]
  show "store (redis (snd (delete_item item_id w))) =
      (\<lambda>k. if k = ITEMS_LIST_KEY \<and> faults (redis w) (Suc (ncalls (redis w))) = None then None
           else if k = get_cache_key item_id \<and> faults (redis w) (ncalls (redis w)) = None then None
           else store (redis w) k)"
    by (simp add: delete_item_eq e redis_emit s(1))
  show "ncalls (redis (snd (delete_item item_id w))) = Suc (Suc (ncalls (redis w)))"
    by (simp add: delete_item_eq e redis_emit s(2))
qed

section \<open>Delete\<close>

text \<open>
  Claim C6. \<^verbatim>\<open>delete_item\<close> raises the 404 exception and changes nothing when the
  identifier is not in the store. When it is, the handler returns normally, whatever the
  cache does: it removes the item from the store, then calls the cache client's delete
  for the item's key and then for the list key, and with a connected client and a server
  that answers both commands the two keys are gone from the cache. A second
  \<^verbatim>\<open>delete_item\<close> of the same identifier raises the 404 exception.
\<close>

theorem delete_item_contract:
  "(dict_get (items_db w) item_id = None \<longrightarrow>
      delete_item item_id w = (Inl (HTTPException 404 (''Item '' @ item_id @ '' not found'')), w)) \<and>
   (dict_get (items_db w) item_id \<noteq> None \<longrightarrow>
      fst (delete_item item_id w) = Inr () \<and>
      items_db (snd (delete_item item_id w)) = dict_del (items_db w) item_id \<and>
      dict_get (items_db (snd (delete_item item_id w))) item_id = None \<and>
      trace (snd (delete_item item_id w)) =
        trace w @ [DbDelete item_id, CacheDelete (get_cache_key item_id),
                   CacheDelete ITEMS_LIST_KEY, RecordItemDeleted] \<and>
      (connected w \<and> faults (redis w) (ncalls (redis w)) = None \<and>
       faults (redis w) (Suc (ncalls (redis w))) = None \<longrightarrow>
         store (redis (snd (delete_item item_id w))) (get_cache_key item_id) = None \<and>
         store (redis (snd (delete_item item_id w))) ITEMS_LIST_KEY = None)) \<and>
   fst (delete_item item_id (snd (delete_item item_id w))) =
     Inl (HTTPException 404 (''Item '' @ item_id @ '' not found''))"
proof (intro conjI impI)
  assume "dict_get (items_db w) item_id = None"
  then show "delete_item item_id w = (Inl (HTTPException 404 (''Item '' @ item_id @ '' not found'')), w)"
    by (simp add: delete_item_eq not_found_def)
next
  assume "dict_get (items_db w) item_id \<noteq> None"
  then obtain e where e: "dict_get (items_db w) item_id = Some e" by blast
  show "fst (delete_item item_id w) = Inr ()"
    by (simp add: delete_item_eq e)
  show db: "items_db (snd (delete_item item_id w)) = dict_del (items_db w) item_id"
    by (simp add: delete_item_eq e emit_def db_cache_delete)
  show "dict_get (items_db (snd (delete_item item_id w))) item_id = None"
    by (simp add: db dict_get_del)
  show "trace (snd (delete_item item_id w)) =
        trace w @ [DbDelete item_id, CacheDelete (get_cache_key item_id),
                   CacheDelete ITEMS_LIST_KEY, RecordItemDeleted]"
    by (simp add: delete_item_eq e emit_def trace_cache_delete)
next
  assume ne: "dict_get (items_db w) item_id \<noteq> None"
    and ok: "connected w \<and> faults (redis w) (ncalls (redis w)) = None \<and>
       faults (redis w) (Suc (ncalls (redis w))) = None"
  from ne obtain e where e: "dict_get (items_db w) item_id = Some e" by blast
  let ?w1 = "emit (DbDelete item_id) (w\<lparr>items_db := dict_del (items_db w) item_id\<rparr>)"
  let ?w2 = "snd (cache_delete (get_cache_key item_id) ?w1)"
  have c1: "connected ?w1" and f1: "faults (redis ?w1) (ncalls (redis ?w1)) = None"
    and r1: "redis ?w1 = redis w"
    using ok by (simp_all add: emit_def connected_def)
  have s2: "store (redis ?w2) = (store (redis w))(get_cache_key item_id := None)"
    using store_cache_delete_ok [OF c1 f1] r1 by simp
  have c2: "connected ?w2" using c1 by (simp add: connected_cache_delete)
  have f2: "faults (redis ?w2) (ncalls (redis ?w2)) = None"
    using ok by (simp add: faults_cache_delete ncalls_cache_delete [OF c1] r1)
  have s3: "store (redis (snd (cache_delete ITEMS_LIST_KEY ?w2))) =
      (store (redis w))(get_cache_key item_id := None, ITEMS_LIST_KEY := None)"
    using store_cache_delete_ok [OF c2 f2] s2 by simp
  have fin: "store (redis (snd (delete_item item_id w))) =
      (store (redis w))(get_cache_key item_id := None, ITEMS_LIST_KEY := None)"
    using s3 by (simp add: delete_item_eq e emit_def)
  show "store (redis (snd (delete_item item_id w))) (get_cache_key item_id) = None"
    by (simp add: fin key_not_list_key)
  show "store (redis (snd (delete_item item_id w))) ITEMS_LIST_KEY = None"
    by (simp add: fin)
next
  show "fst (delete_item item_id (snd (delete_item item_id w))) =
     Inl (HTTPException 404 (''Item '' @ item_id @ '' not found''))"
  proof (cases "dict_get (items_db w) item_id")
    case None
    then show ?thesis by (simp add: delete_item_eq not_found_def)
  next
    case (Some e)
    have "dict_get (items_db (snd (delete_item item_id w))) item_id = None"
      by (simp add: delete_item_eq Some emit_def db_cache_delete dict_get_del)
    then show ?thesis by (simp add: delete_item_eq [of item_id "snd (delete_item item_id w)"] not_found_def)
  qed
qed

text \<open>
  With the item in store and cache, and with an empty store: the first delete succeeds
  and clears store and cache, the second one and the one on the empty store raise 404.
\<close>

theorem delete_item_contract_witness:
  "dict_get (items_db world_A) ''i1'' \<noteq> None \<and>
   dict_get (items_db world0) ''i1'' = None \<and>
   delete_item ''i1'' world0 = (Inl (HTTPException 404 ''Item i1 not found''), world0) \<and>
   fst (delete_item ''i1'' world_A) = Inr () \<and>
   dict_get (items_db (snd (delete_item ''i1'' world_A))) ''i1'' = None \<and>
   store (redis (snd (delete_item ''i1'' world_A))) (get_cache_key ''i1'') = None \<and>
   fst (delete_item ''i1'' (snd (delete_item ''i1'' world_A))) =
     Inl (HTTPException 404 ''Item i1 not found'')"
proof -
  have present: "dict_get (items_db world_A) ''i1'' \<noteq> None"
    by (simp add: example_defs dict_get_def)
  have absent: "dict_get (items_db world0) ''i1'' = None"
    by (simp add: example_defs dict_get_def)
  have up: "connected world_A \<and> faults (redis world_A) (ncalls (redis world_A)) = None \<and>
      faults (redis world_A) (Suc (ncalls (redis world_A))) = None"
    by (simp add: example_defs connected_def)
  have detail: "''Item '' @ ''i1'' @ '' not found'' = ''Item i1 not found''"
    by simp
  show ?thesis
    using delete_item_contract [of world_A "''i1''"] delete_item_contract [of world0 "''i1''"]
      present absent up unfolding detail by blast
qed

section \<open>Update\<close>

text \<open>
  Claim C5. For an item in the store, \<^verbatim>\<open>update_item\<close> stores an item in which every
  field set in the update has the update's value, every field not set keeps the value of
  the stored item (as does every other key), and \<^verbatim>\<open>updated_at\<close> is the current time;
  the response is built from that item, and the other items of the store are untouched.
  In particular, updating the price to 5 after creating name A, price 1, quantity 2
  returns name A, price 5, quantity 2, for every state the cache is in.
\<close>

theorem update_item_merges:
  "(dict_get (items_db w) item_id = Some e \<longrightarrow>
     (\<exists>e'. dict_get (items_db (snd (update_item item_id now u w))) item_id = Some e' \<and>
        fst (update_item item_id now u w) = ItemResponse_of (PDict e') \<and>
        dict_get e' ''name'' =
          (case iu_name u of None \<Rightarrow> dict_get e ''name'' | Some None \<Rightarrow> Some PNone
           | Some (Some n) \<Rightarrow> Some (PStr n)) \<and>
        dict_get e' ''description'' =
          (case iu_description u of None \<Rightarrow> dict_get e ''description'' | Some None \<Rightarrow> Some PNone
           | Some (Some d) \<Rightarrow> Some (PStr d)) \<and>
        dict_get e' ''price'' =
          (case iu_price u of None \<Rightarrow> dict_get e ''price'' | Some None \<Rightarrow> Some PNone
           | Some (Some p) \<Rightarrow> Some (PFloat p)) \<and>
        dict_get e' ''quantity'' =
          (case iu_quantity u of None \<Rightarrow> dict_get e ''quantity'' | Some None \<Rightarrow> Some PNone
           | Some (Some q) \<Rightarrow> Some (PInt q)) \<and>
        dict_get e' ''tags'' =
          (case iu_tags u of None \<Rightarrow> dict_get e ''tags'' | Some None \<Rightarrow> Some PNone
           | Some (Some ts) \<Rightarrow> Some (PList (map PStr ts))) \<and>
        dict_get e' ''updated_at'' = Some (PStr now) \<and>
        (\<forall>k. k \<notin> {''name'', ''description'', ''price'', ''quantity'', ''tags'', ''updated_at''} \<longrightarrow>
           dict_get e' k = dict_get e k)) \<and>
     (\<forall>other. other \<noteq> item_id \<longrightarrow>
        dict_get (items_db (snd (update_item item_id now u w))) other =
        dict_get (items_db w) other)) \<and>
   fst (update_item item_id t1
          \<lparr>iu_name = None, iu_description = None, iu_price = Some (Some 5), iu_quantity = None,
           iu_tags = None\<rparr>
          (snd (create_item item_id t0
             \<lparr>ic_name = ''A'', ic_description = d, ic_price = 1, ic_quantity = 2, ic_tags = ts\<rparr> w))) =
     Inr \<lparr>ir_id = item_id, ir_name = ''A'', ir_description = d, ir_price = 5, ir_quantity = 2,
          ir_tags = ts, ir_created_at = t0, ir_updated_at = t1\<rparr>"
proof (intro conjI impI)
  assume e: "dict_get (items_db w) item_id = Some e"
  show "\<exists>e'. dict_get (items_db (snd (update_item item_id now u w))) item_id = Some e' \<and>
        fst (update_item item_id now u w) = ItemResponse_of (PDict e') \<and>
        dict_get e' ''name'' =
          (case iu_name u of None \<Rightarrow> dict_get e ''name'' | Some None \<Rightarrow> Some PNone
           | Some (Some n) \<Rightarrow> Some (PStr n)) \<and>
        dict_get e' ''description'' =
          (case iu_description u of None \<Rightarrow> dict_get e ''description'' | Some None \<Rightarrow> Some PNone
           | Some (Some d) \<Rightarrow> Some (PStr d)) \<and>
        dict_get e' ''price'' =
          (case iu_price u of None \<Rightarrow> dict_get e ''price'' | Some None \<Rightarrow> Some PNone
           | Some (Some p) \<Rightarrow> Some (PFloat p)) \<and>
        dict_get e' ''quantity'' =
          (case iu_quantity u of None \<Rightarrow> dict_get e ''quantity'' | Some None \<Rightarrow> Some PNone
           | Some (Some q) \<Rightarrow> Some (PInt q)) \<and>
        dict_get e' ''tags'' =
          (case iu_tags u of None \<Rightarrow> dict_get e ''tags'' | Some None \<Rightarrow> Some PNone
           | Some (Some ts) \<Rightarrow> Some (PList (map PStr ts))) \<and>
        dict_get e' ''updated_at'' = Some (PStr now) \<and>
        (\<forall>k. k \<notin> {''name'', ''description'', ''price'', ''quantity'', ''tags'', ''updated_at''} \<longrightarrow>
           dict_get e' k = dict_get e k)"
    apply (rule exI [of _ "rs_merge e u now"])
    apply (simp add: update_item_fst [OF e] update_item_db [OF e] dict_get_set)
    apply (simp add: dict_get_rs_merge)
    done
  show "\<forall>other. other \<noteq> item_id \<longrightarrow>
        dict_get (items_db (snd (update_item item_id now u w))) other =
        dict_get (items_db w) other"
    by (simp add: update_item_db [OF e] dict_get_set)
next
  let ?F = "\<lparr>ic_name = ''A'', ic_description = d, ic_price = 1, ic_quantity = 2, ic_tags = ts\<rparr>"
  let ?u = "\<lparr>iu_name = None, iu_description = None, iu_price = Some (Some 5), iu_quantity = None,
           iu_tags = None\<rparr>"
  let ?w1 = "snd (create_item item_id t0 ?F w)"
  have e: "dict_get (items_db ?w1) item_id = Some (new_entity item_id t0 ?F)"
    by (simp add: create_item_db dict_get_set)
  have m: "rs_merge (new_entity item_id t0 ?F) ?u t1 =
      [(''id'', PStr item_id), (''name'', PStr ''A''), (''description'', opt_str d),
       (''price'', PFloat 5), (''quantity'', PInt 2), (''tags'', PList (map PStr ts)),
       (''created_at'', PStr t0), (''updated_at'', PStr t1)]"
    by (simp add: rs_merge_def apply_field_def new_entity_def dict_set_def)
  show "fst (update_item item_id t1 ?u ?w1) =
     Inr \<lparr>ir_id = item_id, ir_name = ''A'', ir_description = d, ir_price = 5, ir_quantity = 2,
          ir_tags = ts, ir_created_at = t0, ir_updated_at = t1\<rparr>"
    unfolding update_item_fst [OF e] m
    by (simp add: ItemResponse_validate_def field_def dict_get_def
      opt_str_def as_str_list_PStr del: as_str_list.simps split: option.splits)
qed

text \<open>
  An update that sets the price and sets the description to \<^verbatim>\<open>None\<close>, on the stored
  item of \<open>world_A\<close>.
\<close>

theorem update_item_merges_witness:
  "dict_get (items_db world_A) ''i1'' = Some (new_entity ''i1'' ''t0'' item_A) \<and>
   (\<exists>e'. dict_get (items_db (snd (update_item ''i1'' ''t1''
             \<lparr>iu_name = None, iu_description = Some None, iu_price = Some (Some 5),
              iu_quantity = None, iu_tags = None\<rparr> world_A))) ''i1'' = Some e' \<and>
      dict_get e' ''name'' = Some (PStr ''A'') \<and>
      dict_get e' ''price'' = Some (PFloat 5) \<and>
      dict_get e' ''quantity'' = Some (PInt 2) \<and>
      dict_get e' ''created_at'' = Some (PStr ''t0'') \<and>
      dict_get e' ''updated_at'' = Some (PStr ''t1''))"
proof -
  have present: "dict_get (items_db world_A) ''i1'' = Some (new_entity ''i1'' ''t0'' item_A)"
    by (simp add: example_defs dict_get_def)
  have old: "dict_get (new_entity ''i1'' ''t0'' item_A) ''name'' = Some (PStr ''A'')"
    "dict_get (new_entity ''i1'' ''t0'' item_A) ''quantity'' = Some (PInt 2)"
    "dict_get (new_entity ''i1'' ''t0'' item_A) ''created_at'' = Some (PStr ''t0'')"
    by (simp_all add: new_entity_def item_A_def dict_get_def)
  let ?u = "\<lparr>iu_name = None, iu_description = Some None, iu_price = Some (Some 5),
          iu_quantity = None, iu_tags = None\<rparr>"
  from update_item_merges [of world_A "''i1''" "new_entity ''i1'' ''t0'' item_A" "''t1''" ?u "''t1''" "''t0''" None "[]"] present
  obtain e' where e': "dict_get (items_db (snd (update_item ''i1'' ''t1'' ?u world_A))) ''i1'' = Some e'"
    and name: "dict_get e' ''name'' = dict_get (new_entity ''i1'' ''t0'' item_A) ''name''"
    and price: "dict_get e' ''price'' = Some (PFloat 5)"
    and quantity: "dict_get e' ''quantity'' = dict_get (new_entity ''i1'' ''t0'' item_A) ''quantity''"
    and updated: "dict_get e' ''updated_at'' = Some (PStr ''t1'')"
    and rest: "\<forall>k. k \<notin> {''name'', ''description'', ''price'', ''quantity'', ''tags'', ''updated_at''} \<longrightarrow>
           dict_get e' k = dict_get (new_entity ''i1'' ''t0'' item_A) k"
    by auto
  from rest have created: "dict_get e' ''created_at'' = dict_get (new_entity ''i1'' ''t0'' item_A) ''created_at''"
    by simp
  show ?thesis
    using present e' name price quantity updated created old by simp
qed

section \<open>Read\<close>

lemma get_item_populates:
  assumes c: "fst (cache_get (get_cache_key item_id) w) = Inr c" and miss: "\<not> truthy c"
    and item: "dict_get (items_db w) item_id = Some item"
    and up: "connected w" "faults (redis w) (Suc (ncalls (redis w))) = None"
    and ser: "json_serializable (PDict item)"
  shows "store (redis (snd (get_item item_id w))) =
    (store (redis w))(get_cache_key item_id \<mapsto> (Dumped (PDict item), Some CACHE_TTL))"
proof -
  let ?k = "get_cache_key item_id"
  let ?w1 = "emit RecordCacheMiss (snd (cache_get ?k w))"
  have c1: "connected ?w1"
    using up(1) connected_cache_get [of ?k w] by (simp add: emit_def connected_def)
  have f1: "faults (redis ?w1) (ncalls (redis ?w1)) = None"
    using up by (simp add: emit_def faults_cache_get ncalls_cache_get)
  have s1: "store (redis ?w1) = store (redis w)"
    by (simp add: emit_def store_cache_get)
  show ?thesis
    using store_cache_set_ok [OF c1 f1 ser, of ?k] s1
    by (simp add: get_item_eq [OF c] miss item)
qed

text \<open>
  Claim C1. \<^verbatim>\<open>get_item\<close> first asks the cache client for the item's key. When the
  client returns a value that counts as true (a hit, as the handler and its metric hook
  take it), the response is built from that value, the store is not consulted (the
  result is the same for every content of the store, also one without the identifier),
  and store, cache and trace show no further effect. When the client returns nothing and
  the identifier is not in the store, the handler raises the 404 exception. When the
  client returns nothing and the store holds the item, the response is built from the
  stored item and the cache client's set is called with the item's key; with a connected
  client and a server that answers, the cache then holds the item under that key with
  the time to live \<open>CACHE_TTL\<close>.
\<close>

theorem get_item_cache_aside:
  "(fst (cache_get (get_cache_key item_id) w) = Inr c \<and> truthy c \<longrightarrow>
      fst (get_item item_id w) = ItemResponse_of c \<and>
      (\<forall>db. fst (get_item item_id (w\<lparr>items_db := db\<rparr>)) = ItemResponse_of c) \<and>
      items_db (snd (get_item item_id w)) = items_db w \<and>
      store (redis (snd (get_item item_id w))) = store (redis w) \<and>
      trace (snd (get_item item_id w)) =
        trace w @ [CacheGet (get_cache_key item_id), RecordCacheHit]) \<and>
   (fst (cache_get (get_cache_key item_id) w) = Inr c \<and> \<not> truthy c \<and>
    dict_get (items_db w) item_id = None \<longrightarrow>
      fst (get_item item_id w) = Inl (HTTPException 404 (''Item '' @ item_id @ '' not found'')) \<and>
      store (redis (snd (get_item item_id w))) = store (redis w) \<and>
      trace (snd (get_item item_id w)) =
        trace w @ [CacheGet (get_cache_key item_id), RecordCacheMiss]) \<and>
   (fst (cache_get (get_cache_key item_id) w) = Inr c \<and> \<not> truthy c \<and>
    dict_get (items_db w) item_id = Some item \<longrightarrow>
      fst (get_item item_id w) = ItemResponse_of (PDict item) \<and>
      items_db (snd (get_item item_id w)) = items_db w \<and>
      trace (snd (get_item item_id w)) =
        trace w @ [CacheGet (get_cache_key item_id), RecordCacheMiss,
                   CacheSet (get_cache_key item_id)] \<and>
      (connected w \<and> faults (redis w) (Suc (ncalls (redis w))) = None \<and>
       json_serializable (PDict item) \<longrightarrow>
         store (redis (snd (get_item item_id w))) (get_cache_key item_id) =
           Some (Dumped (PDict item), Some CACHE_TTL))) \<and>
   (connected w \<and> faults (redis w) (ncalls (redis w)) = None \<and>
    store (redis w) (get_cache_key item_id) = Some (Dumped v, ttl) \<and>
    json_serializable v \<and> truthy v \<longrightarrow>
      fst (get_item item_id w) = ItemResponse_of v)"
proof (intro conjI impI allI; (elim conjE)?)
  assume c: "fst (cache_get (get_cache_key item_id) w) = Inr c" and t: "truthy c"
  show "fst (get_item item_id w) = ItemResponse_of c"
    by (simp add: get_item_eq [OF c] t)
  show "items_db (snd (get_item item_id w)) = items_db w"
    by (simp add: get_item_eq [OF c] t emit_def db_cache_get)
  show "store (redis (snd (get_item item_id w))) = store (redis w)"
    by (simp add: get_item_eq [OF c] t emit_def store_cache_get)
  show "trace (snd (get_item item_id w)) =
        trace w @ [CacheGet (get_cache_key item_id), RecordCacheHit]"
    by (simp add: get_item_eq [OF c] t emit_def trace_cache_get)
  fix db
  have "fst (cache_get (get_cache_key item_id) (w\<lparr>items_db := db\<rparr>)) = Inr c"
    using c by (simp add: cache_get_frame)
  then show "fst (get_item item_id (w\<lparr>items_db := db\<rparr>)) = ItemResponse_of c"
    by (simp add: get_item_eq t)
next
  assume c: "fst (cache_get (get_cache_key item_id) w) = Inr c" and t: "\<not> truthy c"
    and a: "dict_get (items_db w) item_id = None"
  show "fst (get_item item_id w) = Inl (HTTPException 404 (''Item '' @ item_id @ '' not found''))"
    by (simp add: get_item_eq [OF c] t a not_found_def)
  show "store (redis (snd (get_item item_id w))) = store (redis w)"
    by (simp add: get_item_eq [OF c] t a emit_def store_cache_get)
  show "trace (snd (get_item item_id w)) =
        trace w @ [CacheGet (get_cache_key item_id), RecordCacheMiss]"
    by (simp add: get_item_eq [OF c] t a emit_def trace_cache_get)
next
  assume c: "fst (cache_get (get_cache_key item_id) w) = Inr c" and t: "\<not> truthy c"
    and p: "dict_get (items_db w) item_id = Some item"
  show "fst (get_item item_id w) = ItemResponse_of (PDict item)"
    by (simp add: get_item_eq [OF c] t p)
  show "items_db (snd (get_item item_id w)) = items_db w"
    by (simp add: get_item_eq [OF c] t p emit_def db_cache_get db_cache_set)
  show "trace (snd (get_item item_id w)) =
        trace w @ [CacheGet (get_cache_key item_id), RecordCacheMiss,
                   CacheSet (get_cache_key item_id)]"
    by (simp add: get_item_eq [OF c] t p emit_def trace_cache_get trace_cache_set)
  assume "connected w" "faults (redis w) (Suc (ncalls (redis w))) = None"
    "json_serializable (PDict item)"
  from get_item_populates [OF c t p this]
  show "store (redis (snd (get_item item_id w))) (get_cache_key item_id) =
           Some (Dumped (PDict item), Some CACHE_TTL)"
    by simp
next
  assume "connected w" "faults (redis w) (ncalls (redis w)) = None"
    "store (redis w) (get_cache_key item_id) = Some (Dumped v, ttl)" "json_serializable v"
    and t: "truthy v"
  from cache_get_hit [OF this(1-4)] have "fst (cache_get (get_cache_key item_id) w) = Inr v" .
  then show "fst (get_item item_id w) = ItemResponse_of v"
    by (simp add: get_item_eq t)
qed

text \<open>
  A stale entry is returned as it is, also when the store is empty; a miss on an empty
  store raises 404; a miss on a stored item returns it and fills the cache.
\<close>

theorem get_item_cache_aside_witness:
  "dict_get (items_db world_stale) ''i1'' = Some (new_entity ''i1'' ''t0'' item_A) \<and>
   fst (cache_get (get_cache_key ''i1'') world_stale) = Inr (PDict (new_entity ''i1'' ''t0'' item_B)) \<and>
   fst (get_item ''i1'' world_stale) = Inr (entity_response ''i1'' ''t0'' item_B) \<and>
   fst (get_item ''i1'' (world_stale\<lparr>items_db := []\<rparr>)) = Inr (entity_response ''i1'' ''t0'' item_B) \<and>
   fst (get_item ''i1'' world0) = Inl (HTTPException 404 ''Item i1 not found'') \<and>
   fst (get_item ''i1'' world_cold) = Inr (entity_response ''i1'' ''t0'' item_A) \<and>
   store (redis (snd (get_item ''i1'' world_cold))) (get_cache_key ''i1'') =
     Some (Dumped (PDict (new_entity ''i1'' ''t0'' item_A)), Some CACHE_TTL)"
proof -
  let ?A = "new_entity ''i1'' ''t0'' item_A" and ?B = "new_entity ''i1'' ''t0'' item_B"
  have stored: "dict_get (items_db world_stale) ''i1'' = Some ?A"
    "dict_get (items_db world_cold) ''i1'' = Some ?A" "dict_get (items_db world0) ''i1'' = None"
    by (simp_all add: example_defs dict_get_def)
  have up: "connected world_stale" "faults (redis world_stale) (ncalls (redis world_stale)) = None"
    "connected world_cold" "faults (redis world_cold) (Suc (ncalls (redis world_cold))) = None"
    by (simp_all add: example_defs connected_def)
  have held: "store (redis world_stale) (get_cache_key ''i1'') = Some (Dumped (PDict ?B), Some 3600)"
    "store (redis world_cold) (get_cache_key ''i1'') = None"
    "store (redis world0) (get_cache_key ''i1'') = None"
    by (simp_all add: example_defs get_cache_key_def CACHE_PREFIX_def)
  have hit: "fst (cache_get (get_cache_key ''i1'') world_stale) = Inr (PDict ?B)"
    using cache_get_hit [OF up(1,2) held(1) serializable_new_entity] .
  have miss: "fst (cache_get (get_cache_key ''i1'') world_cold) = Inr PNone"
    "fst (cache_get (get_cache_key ''i1'') world0) = Inr PNone"
    using held(2,3) by (simp_all add: cache_get_absent)
  have detail: "''Item '' @ ''i1'' @ '' not found'' = ''Item i1 not found''"
    by simp
  show ?thesis
    using get_item_cache_aside [of "''i1''" world_stale "PDict ?B" ?A "PDict ?B" "Some 3600"]
      get_item_cache_aside [of "''i1''" world0 PNone ?A PNone None]
      get_item_cache_aside [of "''i1''" world_cold PNone ?A PNone None]
      stored up hit miss truthy_new_entity [of "''i1''" "''t0''" item_B]
      serializable_new_entity [of "''i1''" "''t0''" item_A]
    unfolding detail response_new_entity
    by simp
qed

section \<open>Create, then read\<close>


lemma store_after_create_ok:
  assumes "connected w" "faults (redis w) (ncalls (redis w)) = None"
  shows "store (redis (snd (create_item item_id now F w))) (get_cache_key item_id) =
     Some (Dumped (PDict (new_entity item_id now F)), Some CACHE_TTL)"
proof -
  let ?k = "get_cache_key item_id" and ?e = "new_entity item_id now F"
  let ?w1 = "emit (DbWrite item_id) (w\<lparr>items_db := dict_set (items_db w) item_id ?e\<rparr>)"
  let ?w2 = "snd (cache_set ?k (PDict ?e) (Some CACHE_TTL) ?w1)"
  let ?w3 = "snd (cache_delete ITEMS_LIST_KEY ?w2)"
  have c1: "connected ?w1" and f1: "faults (redis ?w1) (ncalls (redis ?w1)) = None"
    using assms by (simp_all add: emit_def connected_def)
  have fin: "store (redis (snd (create_item item_id now F w))) = store (redis ?w3)"
    by (simp add: create_item_eq emit_def)
  have k3: "store (redis ?w3) ?k = store (redis ?w2) ?k"
    using store_cache_delete_cases [of ITEMS_LIST_KEY ?w2] key_not_list_key [of item_id] by auto
  show ?thesis
    using store_cache_set_ok [OF c1 f1 serializable_new_entity, of ?k item_id now F] k3 fin by simp
qed







section \<open>Cache keys\<close>

lemma store_after_create_other:
  "k \<noteq> get_cache_key item_id \<Longrightarrow> store (redis w) k = None \<Longrightarrow>
   store (redis (snd (create_item item_id now F w))) k = None"
proof -
  assume k: "k \<noteq> get_cache_key item_id" and n: "store (redis w) k = None"
  let ?e = "new_entity item_id now F"
  let ?w1 = "emit (DbWrite item_id) (w\<lparr>items_db := dict_set (items_db w) item_id ?e\<rparr>)"
  let ?w2 = "snd (cache_set (get_cache_key item_id) (PDict ?e) (Some CACHE_TTL) ?w1)"
  let ?w3 = "snd (cache_delete ITEMS_LIST_KEY ?w2)"
  have r1: "redis ?w1 = redis w" by (simp add: emit_def)
  have fin: "store (redis (snd (create_item item_id now F w))) = store (redis ?w3)"
    by (simp add: create_item_eq emit_def)
  have k2: "store (redis ?w2) k = None"
    using store_cache_set_cases [of "get_cache_key item_id" "PDict ?e" ?w1] k n r1 by auto
  have "store (redis ?w3) k = None"
    using store_cache_delete_cases [of ITEMS_LIST_KEY ?w2] k2 by auto
  then show ?thesis by (simp add: fin)
qed

text \<open>
  Claim C9, as stated, fails: the key of item \<open>42\<close> is not \<open>entity:42\<close> and the list key
  is not \<open>entities:list\<close>; after a create with a working cache there is no entry under
  \<open>entity:42\<close>, the item is under \<open>item:42\<close>.
\<close>

theorem cache_keys_counterexample:
  "get_cache_key ''42'' \<noteq> ''entity:42'' \<and>
   ITEMS_LIST_KEY \<noteq> ''entities:list'' \<and>
   store (redis (snd (create_item ''42'' ''t0'' item_A world0))) ''entity:42'' = None \<and>
   store (redis (snd (create_item ''42'' ''t0'' item_A world0))) ''item:42'' =
     Some (Dumped (PDict (new_entity ''42'' ''t0'' item_A)), Some 3600)"
proof -
  have k: "get_cache_key ''42'' = ''item:42''"
    by (simp add: get_cache_key_def CACHE_PREFIX_def)
  have up: "connected world0" "faults (redis world0) (ncalls (redis world0)) = None"
    by (simp_all add: example_defs connected_def)
  have n: "store (redis world0) ''entity:42'' = None"
    by (simp add: example_defs)
  show ?thesis
    using store_after_create_ok [OF up, of "''42''" "''t0''" item_A]
      store_after_create_other [of "''entity:42''" "''42''" world0 "''t0''" item_A] n
    by (simp add: k ITEMS_LIST_KEY_def CACHE_TTL_def)
qed

text \<open>
  Claim C9, amended. The cache entry of an item is stored under the key \<open>item:<id>\<close>, and
  the list invalidation key is the fixed literal \<open>items:list\<close>: these are the keys the
  cache helpers and \<^verbatim>\<open>create_item\<close> pass to the cache client, and with a working cache
  the created item is found under \<open>item:<id>\<close>, with a time to live of 3600 seconds.
\<close>

theorem cache_keys:
  "get_cache_key item_id = ''item:'' @ item_id \<and>
   ITEMS_LIST_KEY = ''items:list'' \<and>
   trace (snd (set_in_cache item_id item w)) = trace w @ [CacheSet (''item:'' @ item_id)] \<and>
   trace (snd (delete_from_cache item_id w)) =
     trace w @ [CacheDelete (''item:'' @ item_id), CacheDelete ''items:list''] \<and>
   trace (snd (create_item item_id now F w)) =
     trace w @ [DbWrite item_id, CacheSet (''item:'' @ item_id), CacheDelete ''items:list'',
                RecordItemCreated] \<and>
   (connected w \<and> faults (redis w) (ncalls (redis w)) = None \<longrightarrow>
      store (redis (snd (create_item item_id now F w))) (''item:'' @ item_id) =
        Some (Dumped (PDict (new_entity item_id now F)), Some 3600))"
proof -
  have k: "get_cache_key item_id = ''item:'' @ item_id"
    by (simp add: get_cache_key_def CACHE_PREFIX_def)
  have l: "ITEMS_LIST_KEY = ''items:list''"
    by (simp add: ITEMS_LIST_KEY_def)
  have t1: "trace (snd (set_in_cache item_id item w)) = trace w @ [CacheSet (get_cache_key item_id)]"
    by (simp add: set_in_cache_eq trace_cache_set)
  have t2: "trace (snd (delete_from_cache item_id w)) =
     trace w @ [CacheDelete (get_cache_key item_id), CacheDelete ITEMS_LIST_KEY]"
    by (simp add: delete_from_cache_eq trace_cache_delete)
  have s: "connected w \<and> faults (redis w) (ncalls (redis w)) = None \<longrightarrow>
      store (redis (snd (create_item item_id now F w))) (get_cache_key item_id) =
        Some (Dumped (PDict (new_entity item_id now F)), Some 3600)"
    using store_after_create_ok [of w item_id now F] by (simp add: CACHE_TTL_def)
  show ?thesis
    using k l t1 t2 s create_item_trace [of item_id now F w] by metis
qed

text \<open>The key of a created item in the state after start-up.\<close>

theorem cache_keys_witness:
  "connected world0 \<and> faults (redis world0) (ncalls (redis world0)) = None \<and>
   store (redis (snd (create_item ''i1'' ''t0'' item_A world0))) (''item:'' @ ''i1'') =
     Some (Dumped (PDict (new_entity ''i1'' ''t0'' item_A)), Some 3600)"
proof -
  have up: "connected world0 \<and> faults (redis world0) (ncalls (redis world0)) = None"
    by (simp add: example_defs connected_def)
  show ?thesis
    using cache_keys [of "''i1''" "[]" world0 "''t0''" item_A] up by blast
qed

section \<open>List\<close>

lemma dict_set_fresh: "dict_get d k = None \<Longrightarrow> dict_set d k v = d @ [(k, v)]"
  unfolding dict_get_def dict_set_def
  by (induction d) (auto split: if_splits)

lemma snd_run_Cons: "snd (run (q # qs) w) = snd (run qs (snd (handle q w)))"
  by (simp split: prod.splits)

lemma snd_run_Nil: "snd (run [] w) = w"
  by simp

lemma snd_handle_Create: "snd (handle (Create item_id now F) w) = snd (create_item item_id now F w)"
  by (simp split: prod.splits)

lemma items_db_world5:
  "items_db world5 =
     [(''i1'', new_entity ''i1'' ''t1'' item_A), (''i2'', new_entity ''i2'' ''t2'' item_B),
      (''i3'', new_entity ''i3'' ''t3'' item_A), (''i4'', new_entity ''i4'' ''t4'' item_B),
      (''i5'', new_entity ''i5'' ''t5'' item_A)]"
  by (simp add: world5_def five_creates_def snd_run_Cons snd_handle_Create create_item_db
      dict_set_def world0_def snd_run_Nil del: run.simps handle.simps)

lemma valid_new_entity: "valid_entity (new_entity item_id now F)"
  using response_new_entity [of item_id now F]
  by (auto simp: valid_entity_def split: option.splits)

text \<open>
  Pages of a store whose items are entities. For \<open>page \<ge> 1\<close> and
  \<open>1 \<le> page_size \<le> 100\<close>, \<^verbatim>\<open>list_items\<close> reads the whole store and changes nothing.
  When a response can be built from each item of the requested slice, it returns the
  count of the store as total, \<open>ceil(total / page_size)\<close> pages, or one page for an empty
  store, and the responses of the slice \<open>[(page-1)*page_size, page*page_size)\<close> of the
  store's values. A page beyond the last one returns an empty sequence, not an error.
  The store's values are in insertion order: a created item with a new identifier comes
  last.
\<close>

lemma list_items_valid_page:
  assumes "1 \<le> page" "1 \<le> page_size" "page_size \<le> 100"
  shows "snd (list_items page page_size w) = w \<and>
    (list_all valid_entity
       (take (nat page_size) (drop (nat ((page - 1) * page_size)) (dict_values (items_db w)))) \<longrightarrow>
     (\<exists>r. fst (list_items page page_size w) = Inr r \<and>
          lr_total r = int (length (items_db w)) \<and>
          lr_total_pages r =
            (if length (items_db w) = 0 then 1
             else \<lceil>real (length (items_db w)) / real_of_int page_size\<rceil>) \<and>
          lr_page r = page \<and> lr_page_size r = page_size \<and>
          map Inr (lr_items r) =
            map (\<lambda>e. ItemResponse_of (PDict e))
              (take (nat page_size) (drop (nat ((page - 1) * page_size)) (dict_values (items_db w)))))) \<and>
    (int (length (items_db w)) \<le> (page - 1) * page_size \<longrightarrow>
     (\<exists>r. fst (list_items page page_size w) = Inr r \<and> lr_items r = [] \<and>
          lr_total r = int (length (items_db w)))) \<and>
    (dict_get (items_db w) item_id = None \<longrightarrow>
       dict_values (items_db (snd (create_item item_id now F w))) =
         dict_values (items_db w) @ [new_entity item_id now F])"
proof (intro conjI impI)
  let ?slice = "take (nat page_size) (drop (nat ((page - 1) * page_size)) (dict_values (items_db w)))"
  note eq = list_items_eq [OF assms, of w]
  show "snd (list_items page page_size w) = w"
    by (simp add: eq)
  {
    assume "list_all valid_entity ?slice"
    from map_exn_valid [OF this] obtain rs
      where rs: "map_exn (\<lambda>e. ItemResponse_of (PDict e)) ?slice = Inr rs"
        "map Inr rs = map (\<lambda>e. ItemResponse_of (PDict e)) ?slice"
      by blast
    show "\<exists>r. fst (list_items page page_size w) = Inr r \<and>
          lr_total r = int (length (items_db w)) \<and>
          lr_total_pages r =
            (if length (items_db w) = 0 then 1
             else \<lceil>real (length (items_db w)) / real_of_int page_size\<rceil>) \<and>
          lr_page r = page \<and> lr_page_size r = page_size \<and>
          map Inr (lr_items r) = map (\<lambda>e. ItemResponse_of (PDict e)) ?slice"
      unfolding eq using rs by (simp del: ItemResponse_of.simps)
  }
  {
    assume "int (length (items_db w)) \<le> (page - 1) * page_size"
    then have e: "?slice = []"
      by (simp add: dict_values_def)
    show "\<exists>r. fst (list_items page page_size w) = Inr r \<and> lr_items r = [] \<and>
          lr_total r = int (length (items_db w))"
      unfolding eq e by simp
  }
  {
    assume "dict_get (items_db w) item_id = None"
    then show "dict_values (items_db (snd (create_item item_id now F w))) =
         dict_values (items_db w) @ [new_entity item_id now F]"
      by (simp add: create_item_db dict_set_fresh dict_values_def)
  }
qed

text \<open>
  Five created items: page 1 of size 2 holds the first two in creation order, with 5
  items in 3 pages; page 10 is empty.
\<close>

lemma list_items_five_created:
  "length (items_db world5) = 5 \<and>
   (\<exists>r. fst (list_items 1 2 world5) = Inr r \<and> lr_total r = 5 \<and> lr_total_pages r = 3 \<and>
        lr_items r = [entity_response ''i1'' ''t1'' item_A, entity_response ''i2'' ''t2'' item_B]) \<and>
   (\<exists>r. fst (list_items 10 2 world5) = Inr r \<and> lr_items r = [] \<and> lr_total r = 5)"
proof -
  have v: "list_all valid_entity
       (take (nat 2) (drop (nat ((1 - 1) * 2)) (dict_values (items_db world5))))"
    by (simp add: items_db_world5 dict_values_def valid_new_entity)
  have out: "int (length (items_db world5)) \<le> (10 - 1) * 2"
    by (simp add: items_db_world5)
  have first2: "map (\<lambda>e. ItemResponse_of (PDict e))
       (take (nat 2) (drop (nat ((1 - 1) * 2)) (dict_values (items_db world5)))) =
     [Inr (entity_response ''i1'' ''t1'' item_A), Inr (entity_response ''i2'' ''t2'' item_B)]"
    by (simp add: items_db_world5 dict_values_def response_new_entity del: ItemResponse_of.simps)
  have b1: "(1::int) \<le> 1" "(1::int) \<le> 2" "(2::int) \<le> 100" by simp_all
  have b2: "(1::int) \<le> 10" by simp
  from list_items_valid_page [OF b1, of world5] v
  have "\<exists>r. fst (list_items 1 2 world5) = Inr r \<and>
          lr_total r = int (length (items_db world5)) \<and>
          lr_total_pages r =
            (if length (items_db world5) = 0 then 1
             else \<lceil>real (length (items_db world5)) / real_of_int 2\<rceil>) \<and>
          lr_page r = 1 \<and> lr_page_size r = 2 \<and>
          map Inr (lr_items r) =
            map (\<lambda>e. ItemResponse_of (PDict e))
              (take (nat 2) (drop (nat ((1 - 1) * 2)) (dict_values (items_db world5))))"
    by blast
  then obtain r where r: "fst (list_items 1 2 world5) = Inr r"
    "lr_total r = int (length (items_db world5))"
    "lr_total_pages r = (if length (items_db world5) = 0 then 1
             else \<lceil>real (length (items_db world5)) / real_of_int 2\<rceil>)"
    "map Inr (lr_items r) =
       map (\<lambda>e. ItemResponse_of (PDict e))
              (take (nat 2) (drop (nat ((1 - 1) * 2)) (dict_values (items_db world5))))"
    by blast
  from r(4) have items: "lr_items r = [entity_response ''i1'' ''t1'' item_A, entity_response ''i2'' ''t2'' item_B]"
    unfolding first2 by auto
  have p: "lr_total r = 5" "lr_total_pages r = 3"
    using r(2,3) by (simp_all add: items_db_world5)
  from list_items_valid_page [OF b2 b1(2,3), of world5] out
  have "\<exists>r. fst (list_items 10 2 world5) = Inr r \<and> lr_items r = [] \<and>
          lr_total r = int (length (items_db world5))"
    by blast
  then obtain r' where r': "fst (list_items 10 2 world5) = Inr r'" "lr_items r' = []"
    "lr_total r' = int (length (items_db world5))"
    by blast
  show ?thesis
    using r(1) items p r' by (simp add: items_db_world5)
qed

lemma null_name_store_only:
  "store_only_run null_name_requests [] =
     ([Inr (ItemR (entity_response ''i1'' ''t0'' item_A)), Inl ValidationError, Inl ValidationError],
      [(''i1'', item_A_unnamed)])"
  by (simp add: null_name_requests_def name_null_def item_A_unnamed_def item_A_def
      entity_response_def new_entity_def rs_merge_def apply_field_def dict_set_def dict_get_def
      as_item_def ItemResponse_validate_def field_def opt_str_def rs_page_def)

text \<open>
  Claim C7 does not hold for every content of the store. \<^verbatim>\<open>update_item\<close> writes the
  fields of the request body into the stored item as they are, a \<^verbatim>\<open>null\<close> name among
  them, which \<^verbatim>\<open>ItemUpdate\<close> admits; the response model \<^verbatim>\<open>ItemResponse\<close> requires a
  name. After a create and the update \<^verbatim>\<open>{"name": null}\<close> of the created item, which
  itself ends in \<^verbatim>\<open>ValidationError\<close> once the store is written, the store holds one
  item, and \<^verbatim>\<open>list_items\<close> for page 1 of size 10 raises \<^verbatim>\<open>ValidationError\<close> where the
  claim gives a total of 1, one page and the slice of one entity. The cache plays no
  part: the responses are the same with a server that is down.
\<close>

theorem list_items_raises:
  "fst (run null_name_requests world0) =
     [Inr (ItemR (entity_response ''i1'' ''t0'' item_A)), Inl ValidationError, Inl ValidationError] \<and>
   items_db (snd (run null_name_requests world0)) = [(''i1'', item_A_unnamed)] \<and>
   fst (list_items 1 10 (world0\<lparr>items_db := [(''i1'', item_A_unnamed)]\<rparr>)) = Inl ValidationError \<and>
   fst (run null_name_requests world_down) = fst (run null_name_requests world0)"
proof -
  have d: "cache_failing world_down"
    by (simp add: cache_failing_def redis_down_def example_defs)
  have db: "items_db world0 = []" "items_db world_down = []"
    by (simp_all add: example_defs)
  have l: "fst (list_items 1 10 (world0\<lparr>items_db := [(''i1'', item_A_unnamed)]\<rparr>)) = Inl ValidationError"
    by (simp add: list_items_def return_def py_slice_def dict_values_def item_A_unnamed_def
        ItemResponse_validate_def field_def dict_get_def Let_def)
  show ?thesis
    using run_healthy [OF world0_healthy world0_agrees, of null_name_requests]
      run_store_only [OF d, of null_name_requests] l
    by (simp add: db null_name_store_only)
qed

text \<open>
  Page 1 and page size 10 are within the bounds of the query parameters: the exception
  is that of the response model, not that of the bounds.
\<close>

theorem list_items_raises_witness:
  "1 \<le> (1::int) \<and> 1 \<le> (10::int) \<and> (10::int) \<le> 100 \<and>
   fst (list_items 1 10 (world0\<lparr>items_db := [(''i1'', item_A_unnamed)]\<rparr>)) = Inl ValidationError \<and>
   fst (list_items 1 10 (world0\<lparr>items_db := [(''i1'', item_A_unnamed)]\<rparr>)) \<noteq>
     Inl RequestValidationError"
  using list_items_raises by simp

section \<open>Order of the writes, and agreement of cache and store\<close>

lemma world_after_blip_eval:
  "items_db world_after_blip = []"
  "store (redis world_after_blip) ''item:i1'' =
     Some (Dumped (PDict (new_entity ''i1'' ''t0'' item_A)), Some 3600)"
  "trace world_after_blip =
     [DbWrite ''i1'', CacheSet ''item:i1'', CacheDelete ''items:list'', RecordItemCreated,
      DbDelete ''i1'', CacheDelete ''item:i1'', CacheDelete ''items:list'', RecordItemDeleted]"
  "connected world_after_blip"
  "ncalls (redis world_after_blip) = 4"
  "faults (redis world_after_blip) 4 = None"
  using serializable_new_entity [of "''i1''" "''t0''" item_A]
  by (simp_all add: world_after_blip_def world_blip_def example_defs create_item_eq delete_item_eq
      world_defs client_defs redis_defs dict_get_def dict_set_def dict_del_def
      get_cache_key_def CACHE_PREFIX_def ITEMS_LIST_KEY_def CACHE_TTL_def split_beta
      del: json_serializable.simps)

lemma world_restarted_eval:
  "items_db world_restarted = []"
  "store (redis world_restarted) ''item:i1'' =
     Some (Dumped (PDict (new_entity ''i1'' ''t0'' item_A)), Some 3600)"
  "connected world_restarted"
  "faults (redis world_restarted) = (\<lambda>_. None)"
  using serializable_new_entity [of "''i1''" "''t0''" item_A]
  by (simp_all add: world_restarted_def startup_def init_cache_def connect_def
      example_defs create_item_eq
      world_defs client_defs redis_defs dict_get_def dict_set_def dict_del_def
      get_cache_key_def CACHE_PREFIX_def ITEMS_LIST_KEY_def CACHE_TTL_def split_beta Let_def
      del: json_serializable.simps)

lemma world_raced_eval:
  "items_db world_raced = []"
  "store (redis world_raced) ''item:i1'' =
     Some (Dumped (PDict (new_entity ''i1'' ''t0'' item_A)), Some 3600)"
  "connected world_raced"
  "faults (redis world_raced) = (\<lambda>_. None)"
  using serializable_new_entity [of "''i1''" "''t0''" item_A]
  by (simp_all add: world_raced_def get_from_cache_def set_in_cache_def seq_def metric_def return_def
      example_defs delete_item_eq
      world_defs client_defs redis_defs dict_get_def dict_set_def dict_del_def
      get_cache_key_def CACHE_PREFIX_def ITEMS_LIST_KEY_def CACHE_TTL_def split_beta Let_def
      del: json_serializable.simps)

lemma world_cold_healthy: "healthy world_cold" and world_cold_agrees: "cache_agrees world_cold"
  using serializable_new_entity [of "''i1''" "''t0''" item_A]
  by (simp_all add: healthy_def connected_def redis_up_def cache_agrees_def example_defs
      dict_values_def del: json_serializable.simps)

lemma stale_read:
  assumes "connected w" "faults (redis w) (ncalls (redis w)) = None"
    and "store (redis w) (get_cache_key item_id) = Some (Dumped (PDict (new_entity item_id now F)), ttl)"
  shows "fst (get_item item_id w) = Inr (entity_response item_id now F)"
proof -
  have "fst (cache_get (get_cache_key item_id) w) = Inr (PDict (new_entity item_id now F))"
    by (rule cache_get_hit [OF assms serializable_new_entity])
  then show ?thesis
    by (simp add: get_item_eq truthy_new_entity response_new_entity
        del: truthy.simps ItemResponse_of.simps)
qed

lemma list_key_after_mutation:
  assumes h: "healthy w"
  shows "store (redis (snd (create_item item_id now F w))) ITEMS_LIST_KEY = None"
    and "store (redis (snd (update_item item_id now u w))) ITEMS_LIST_KEY =
      (if dict_get (items_db w) item_id = None then store (redis w) ITEMS_LIST_KEY else None)"
    and "store (redis (snd (delete_item item_id w))) ITEMS_LIST_KEY =
      (if dict_get (items_db w) item_id = None then store (redis w) ITEMS_LIST_KEY else None)"
proof -
  have gone: "\<And>w2. healthy w2 \<Longrightarrow> store (redis (snd (cache_delete ITEMS_LIST_KEY w2))) ITEMS_LIST_KEY = None"
    by (simp add: healthy_store_delete)
  have s: "\<And>db ev k v. healthy (snd (cache_set k v (Some CACHE_TTL) (emit ev (w\<lparr>items_db := db\<rparr>))))"
    using h by (simp add: healthy_cache_set healthy_frame)
  have d: "\<And>db ev k. healthy (snd (cache_delete k (emit ev (w\<lparr>items_db := db\<rparr>))))"
    using h by (simp add: healthy_cache_delete healthy_frame)
  show "store (redis (snd (create_item item_id now F w))) ITEMS_LIST_KEY = None"
    by (simp add: create_item_eq redis_emit gone [OF s])
  show "store (redis (snd (update_item item_id now u w))) ITEMS_LIST_KEY =
      (if dict_get (items_db w) item_id = None then store (redis w) ITEMS_LIST_KEY else None)"
    by (auto simp: update_item_eq gone [OF s] split: option.splits)
  show "store (redis (snd (delete_item item_id w))) ITEMS_LIST_KEY =
      (if dict_get (items_db w) item_id = None then store (redis w) ITEMS_LIST_KEY else None)"
    by (auto simp: delete_item_eq redis_emit gone [OF d] split: option.splits)
qed

text \<open>
  Claim C4, as stated, fails in its second half, in three ways. First, the server
  answers the two commands of a create and fails the two commands of the following
  delete: in the state after the delete, whose trace shows that both invalidations have
  been called, the store no longer holds the item, the cache still holds it, and a read
  returns the deleted item. The stale entry outlives the window between the store
  mutation and its invalidation. Second, with a cache that works throughout: a process
  creates an item and ends, and in the new process, whose store is empty, the cache holds
  the item and a read returns it. Third, with a cache that works throughout and in
  agreement with the store at the start: a read and a delete of the same item
  interleave, the cache write of the read comes after the delete has ended, and from
  then on the cache holds the item that the store has lost, and a read returns it.
\<close>

theorem cache_agreement_counterexample:
  "dict_get (items_db world_after_blip) ''i1'' = None \<and>
   store (redis world_after_blip) (get_cache_key ''i1'') =
     Some (Dumped (PDict (new_entity ''i1'' ''t0'' item_A)), Some 3600) \<and>
   trace world_after_blip =
     [DbWrite ''i1'', CacheSet ''item:i1'', CacheDelete ''items:list'', RecordItemCreated,
      DbDelete ''i1'', CacheDelete ''item:i1'', CacheDelete ''items:list'', RecordItemDeleted] \<and>
   \<not> cache_agrees world_after_blip \<and>
   fst (get_item ''i1'' world_after_blip) = Inr (entity_response ''i1'' ''t0'' item_A) \<and>
   healthy world_restarted \<and>
   dict_get (items_db world_restarted) ''i1'' = None \<and>
   store (redis world_restarted) (get_cache_key ''i1'') =
     Some (Dumped (PDict (new_entity ''i1'' ''t0'' item_A)), Some 3600) \<and>
   fst (get_item ''i1'' world_restarted) = Inr (entity_response ''i1'' ''t0'' item_A) \<and>
   healthy world_cold \<and> cache_agrees world_cold \<and>
   healthy world_raced \<and>
   dict_get (items_db world_raced) ''i1'' = None \<and>
   store (redis world_raced) (get_cache_key ''i1'') =
     Some (Dumped (PDict (new_entity ''i1'' ''t0'' item_A)), Some 3600) \<and>
   \<not> cache_agrees world_raced \<and>
   fst (get_item ''i1'' world_raced) = Inr (entity_response ''i1'' ''t0'' item_A)"
proof -
  let ?A = "new_entity ''i1'' ''t0'' item_A"
  have k: "get_cache_key ''i1'' = ''item:i1''"
    by (simp add: get_cache_key_def CACHE_PREFIX_def)
  have db: "dict_get (items_db world_after_blip) ''i1'' = None"
    by (simp add: world_after_blip_eval dict_get_def)
  have st: "store (redis world_after_blip) (get_cache_key ''i1'') = Some (Dumped (PDict ?A), Some 3600)"
    by (simp add: k world_after_blip_eval)
  have na: "\<not> cache_agrees world_after_blip"
    using db st unfolding cache_agrees_def by force
  have f: "faults (redis world_after_blip) (ncalls (redis world_after_blip)) = None"
    by (simp add: world_after_blip_eval)
  have rd: "fst (get_item ''i1'' world_after_blip) = Inr (entity_response ''i1'' ''t0'' item_A)"
    by (rule stale_read [OF world_after_blip_eval(4) f st])
  have hr: "healthy world_restarted"
    by (simp add: healthy_def redis_up_def world_restarted_eval)
  have dbr: "dict_get (items_db world_restarted) ''i1'' = None"
    by (simp add: world_restarted_eval dict_get_def)
  have str: "store (redis world_restarted) (get_cache_key ''i1'') = Some (Dumped (PDict ?A), Some 3600)"
    by (simp add: k world_restarted_eval)
  have rdr: "fst (get_item ''i1'' world_restarted) = Inr (entity_response ''i1'' ''t0'' item_A)"
    by (rule stale_read [OF world_restarted_eval(3) _ str]) (simp add: world_restarted_eval)
  have hc: "healthy world_raced"
    by (simp add: healthy_def redis_up_def world_raced_eval)
  have dbc: "dict_get (items_db world_raced) ''i1'' = None"
    by (simp add: world_raced_eval dict_get_def)
  have stc: "store (redis world_raced) (get_cache_key ''i1'') = Some (Dumped (PDict ?A), Some 3600)"
    by (simp add: k world_raced_eval)
  have nac: "\<not> cache_agrees world_raced"
    using dbc stc unfolding cache_agrees_def by force
  have rdc: "fst (get_item ''i1'' world_raced) = Inr (entity_response ''i1'' ''t0'' item_A)"
    by (rule stale_read [OF world_raced_eval(3) _ stc]) (simp add: world_raced_eval)
  show ?thesis
    using db st na rd world_after_blip_eval(3) hr dbr str rdr world_cold_healthy world_cold_agrees
      hc dbc stc nac rdc
    by simp
qed

text \<open>
  Claim C4, amended. In \<^verbatim>\<open>create_item\<close>, \<^verbatim>\<open>update_item\<close> and \<^verbatim>\<open>delete_item\<close> the write to
  the store comes before every call of the cache client: the cache calls act on the state
  that the store write has left, and the delete of the list key is the last cache call of
  each, called once; what the handler returns does not depend on what the cache calls
  return. A request for an identifier that the store lacks writes nothing and calls
  nothing. With a working cache (the client is connected and the server answers every
  command) the list key is gone from the server after each of the three. Consequently,
  when the requests are handled one after the other, the cache works throughout, and the
  run starts from a state in which cache and store agree, such as the empty store with
  an empty cache, every state between two requests is one in which every entry under an
  item key is the serialized item the store holds under that identifier. These states
  lie outside the window between a store mutation and its cache write or invalidation.
  Nothing is stated for the states after a cache call that failed, for requests that
  interleave, or for entries that the server holds when a process starts.
\<close>

theorem write_order_and_agreement:
  "trace (snd (create_item item_id now F w)) =
     trace w @ [DbWrite item_id, CacheSet (get_cache_key item_id), CacheDelete ITEMS_LIST_KEY,
                RecordItemCreated] \<and>
   snd (create_item item_id now F w) =
     emit RecordItemCreated
       (snd (cache_delete ITEMS_LIST_KEY
         (snd (cache_set (get_cache_key item_id) (PDict (new_entity item_id now F)) (Some CACHE_TTL)
           (emit (DbWrite item_id)
             (w\<lparr>items_db := dict_set (items_db w) item_id (new_entity item_id now F)\<rparr>)))))) \<and>
   fst (create_item item_id now F w) = Inr (entity_response item_id now F) \<and>
   (\<forall>e. dict_get (items_db w) item_id = Some e \<longrightarrow>
      fst (update_item item_id now u w) = ItemResponse_of (PDict (rs_merge e u now)) \<and>
      fst (delete_item item_id w) = Inr () \<and>
      trace (snd (update_item item_id now u w)) =
        trace w @ [DbWrite item_id, CacheSet (get_cache_key item_id), CacheDelete ITEMS_LIST_KEY] \<and>
      snd (update_item item_id now u w) =
        snd (cache_delete ITEMS_LIST_KEY
          (snd (cache_set (get_cache_key item_id) (PDict (rs_merge e u now)) (Some CACHE_TTL)
            (emit (DbWrite item_id)
              (w\<lparr>items_db := dict_set (items_db w) item_id (rs_merge e u now)\<rparr>))))) \<and>
      trace (snd (delete_item item_id w)) =
        trace w @ [DbDelete item_id, CacheDelete (get_cache_key item_id),
                   CacheDelete ITEMS_LIST_KEY, RecordItemDeleted] \<and>
      snd (delete_item item_id w) =
        emit RecordItemDeleted
          (snd (cache_delete ITEMS_LIST_KEY
            (snd (cache_delete (get_cache_key item_id)
              (emit (DbDelete item_id) (w\<lparr>items_db := dict_del (items_db w) item_id\<rparr>))))))) \<and>
   (dict_get (items_db w) item_id = None \<longrightarrow>
      snd (update_item item_id now u w) = w \<and> snd (delete_item item_id w) = w) \<and>
   (healthy w \<longrightarrow>
      store (redis (snd (create_item item_id now F w))) ITEMS_LIST_KEY = None \<and>
      (dict_get (items_db w) item_id \<noteq> None \<longrightarrow>
         store (redis (snd (update_item item_id now u w))) ITEMS_LIST_KEY = None \<and>
         store (redis (snd (delete_item item_id w))) ITEMS_LIST_KEY = None)) \<and>
   (healthy w \<and> cache_agrees w \<longrightarrow>
      healthy (snd (run qs w)) \<and> cache_agrees (snd (run qs w)) \<and>
      (\<forall>i t ttl. store (redis (snd (run qs w))) (get_cache_key i) = Some (t, ttl) \<longrightarrow>
         (\<exists>item. dict_get (items_db (snd (run qs w))) i = Some item \<and> t = Dumped (PDict item)))) \<and>
   cache_agrees (snd (run qs world0))"
proof (intro conjI impI allI)
  show "trace (snd (create_item item_id now F w)) =
     trace w @ [DbWrite item_id, CacheSet (get_cache_key item_id), CacheDelete ITEMS_LIST_KEY,
                RecordItemCreated]"
    by (rule create_item_trace)
  show "snd (create_item item_id now F w) =
     emit RecordItemCreated
       (snd (cache_delete ITEMS_LIST_KEY
         (snd (cache_set (get_cache_key item_id) (PDict (new_entity item_id now F)) (Some CACHE_TTL)
           (emit (DbWrite item_id)
             (w\<lparr>items_db := dict_set (items_db w) item_id (new_entity item_id now F)\<rparr>))))))"
    by (simp add: create_item_eq)
  show "cache_agrees (snd (run qs world0))"
    using run_healthy [OF world0_healthy world0_agrees, of qs] by simp
  show "fst (create_item item_id now F w) = Inr (entity_response item_id now F)"
    by (rule create_item_fst)
next
  fix e
  assume e: "dict_get (items_db w) item_id = Some e"
  show "fst (update_item item_id now u w) = ItemResponse_of (PDict (rs_merge e u now))"
    by (rule update_item_fst [OF e])
  show "fst (delete_item item_id w) = Inr ()"
    by (simp add: delete_item_eq e)
  show "trace (snd (update_item item_id now u w)) =
        trace w @ [DbWrite item_id, CacheSet (get_cache_key item_id), CacheDelete ITEMS_LIST_KEY]"
    by (rule update_item_trace [OF e])
  show "snd (update_item item_id now u w) =
        snd (cache_delete ITEMS_LIST_KEY
          (snd (cache_set (get_cache_key item_id) (PDict (rs_merge e u now)) (Some CACHE_TTL)
            (emit (DbWrite item_id)
              (w\<lparr>items_db := dict_set (items_db w) item_id (rs_merge e u now)\<rparr>)))))"
    by (simp add: update_item_eq e)
  show "trace (snd (delete_item item_id w)) =
        trace w @ [DbDelete item_id, CacheDelete (get_cache_key item_id),
                   CacheDelete ITEMS_LIST_KEY, RecordItemDeleted]"
    by (simp add: delete_item_eq e emit_def trace_cache_delete)
  show "snd (delete_item item_id w) =
        emit RecordItemDeleted
          (snd (cache_delete ITEMS_LIST_KEY
            (snd (cache_delete (get_cache_key item_id)
              (emit (DbDelete item_id) (w\<lparr>items_db := dict_del (items_db w) item_id\<rparr>))))))"
    by (simp add: delete_item_eq e)
next
  assume n: "dict_get (items_db w) item_id = None"
  show "snd (update_item item_id now u w) = w"
    by (simp add: update_item_eq n)
  show "snd (delete_item item_id w) = w"
    by (simp add: delete_item_eq n)
next
  assume h: "healthy w"
  show "store (redis (snd (create_item item_id now F w))) ITEMS_LIST_KEY = None"
    by (rule list_key_after_mutation(1) [OF h])
  assume "dict_get (items_db w) item_id \<noteq> None"
  then obtain e where e: "dict_get (items_db w) item_id = Some e" by blast
  show "store (redis (snd (update_item item_id now u w))) ITEMS_LIST_KEY = None"
    "store (redis (snd (delete_item item_id w))) ITEMS_LIST_KEY = None"
    by (simp_all add: list_key_after_mutation(2,3) [OF h] e)
next
  assume "healthy w \<and> cache_agrees w"
  then have r: "healthy (snd (run qs w))" "cache_agrees (snd (run qs w))"
    using run_healthy [of w qs] by simp_all
  show "healthy (snd (run qs w))" by (rule r)
  show "cache_agrees (snd (run qs w))" by (rule r)
  fix i t ttl
  assume "store (redis (snd (run qs w))) (get_cache_key i) = Some (t, ttl)"
  then show "\<exists>item. dict_get (items_db (snd (run qs w))) i = Some item \<and> t = Dumped (PDict item)"
    using r(2) by (simp add: cache_agrees_def)
qed

text \<open>
  A delete of a stored item and of a missing one, the list key after a create, an update
  and a delete, and a session of requests starting from a state in which store and cache
  hold the same item.
\<close>

theorem write_order_and_agreement_witness:
  "dict_get (items_db world_A) ''i1'' = Some (new_entity ''i1'' ''t0'' item_A) \<and>
   dict_get (items_db world0) ''i1'' = None \<and>
   healthy world_A \<and> cache_agrees world_A \<and>
   trace (snd (delete_item ''i1'' world_A)) =
     [DbDelete ''i1'', CacheDelete (get_cache_key ''i1''), CacheDelete ITEMS_LIST_KEY,
      RecordItemDeleted] \<and>
   snd (delete_item ''i1'' world0) = world0 \<and>
   store (redis (snd (create_item ''i1'' ''t1'' item_A world_A))) ITEMS_LIST_KEY = None \<and>
   store (redis (snd (update_item ''i1'' ''t1'' price_5 world_A))) ITEMS_LIST_KEY = None \<and>
   store (redis (snd (delete_item ''i1'' world_A))) ITEMS_LIST_KEY = None \<and>
   cache_agrees (snd (run session_requests world_A))"
proof -
  have p: "dict_get (items_db world_A) ''i1'' = Some (new_entity ''i1'' ''t0'' item_A)"
    "dict_get (items_db world0) ''i1'' = None"
    by (simp_all add: example_defs dict_get_def)
  have p': "dict_get (items_db world_A) ''i1'' \<noteq> None"
    by (simp add: p)
  have t: "trace world_A = []"
    by (simp add: example_defs)
  note a = write_order_and_agreement [of "''i1''" "''t1''" item_A world_A price_5 session_requests]
  note b = write_order_and_agreement [of "''i1''" "''t1''" item_A world0 price_5 session_requests]
  have d: "trace (snd (delete_item ''i1'' world_A)) =
        trace world_A @ [DbDelete ''i1'', CacheDelete (get_cache_key ''i1''),
                   CacheDelete ITEMS_LIST_KEY, RecordItemDeleted]"
    using a p(1) by blast
  have d0: "snd (delete_item ''i1'' world0) = world0"
    using b p(2) by blast
  have l: "store (redis (snd (create_item ''i1'' ''t1'' item_A world_A))) ITEMS_LIST_KEY = None"
    "store (redis (snd (update_item ''i1'' ''t1'' price_5 world_A))) ITEMS_LIST_KEY = None"
    "store (redis (snd (delete_item ''i1'' world_A))) ITEMS_LIST_KEY = None"
    using a world_A_healthy p' by blast+
  have r: "cache_agrees (snd (run session_requests world_A))"
    using a world_A_healthy world_A_agrees by blast
  show ?thesis
    using p world_A_healthy world_A_agrees d d0 l r by (simp add: t)
qed

section \<open>The service with a failing cache\<close>

lemma ceiling_tenth: "\<lceil>(1::real) / 10\<rceil> = 1"
  by (rule ceiling_unique) simp_all

lemma session_store_only:
  "fst (store_only_run session_requests []) = session_responses"
  by (simp add: ceiling_tenth session_requests_def session_responses_def item_A_updated_def price_5_def
      item_A_def entity_response_def new_entity_def rs_merge_def apply_field_def dict_set_def
      dict_get_def dict_del_def as_item_def not_found_def ItemResponse_validate_def field_def
      opt_str_def rs_page_def rs_total_pages_def)

lemma response_error: "ItemResponse_of (PDict e) = Inl x \<Longrightarrow> x = ValidationError"
  by (simp split: option.splits)

lemma map_exn_error:
  "map_exn (\<lambda>e. ItemResponse_of (PDict e)) es = Inl x \<Longrightarrow> x = ValidationError"
  by (induction es) (auto split: sum.splits option.splits)

lemma as_item_error: "as_item r = Inl x \<Longrightarrow> r = Inl x"
  by (cases r) (auto simp: as_item_def)

lemma store_only_error: "fst (store_only q db) = Inl x \<Longrightarrow> store_error x"
proof (cases q)
  case (List page page_size)
  assume "fst (store_only q db) = Inl x"
  then show ?thesis
    unfolding List store_error_def
    by (auto split: if_splits sum.splits dest: map_exn_error simp del: ItemResponse_of.simps)
qed (auto simp: store_error_def not_found_def split: option.splits
      dest!: as_item_error response_error simp del: ItemResponse_of.simps)

lemma store_only_run_error:
  "Inl x \<in> set (fst (store_only_run qs db)) \<Longrightarrow> store_error x"
proof (induction qs arbitrary: db)
  case Nil
  then show ?case by simp
next
  case (Cons q qs)
  then show ?case
    using store_only_error [of q db x]
    by (auto simp: split_beta)
qed

text \<open>
  Claim C2. When the cache is failing (the client is not connected, or every command to
  the server fails), every call of the cache client returns its failure value, and for
  every sequence of create, read, update, delete and list requests the responses and the
  final store are those of the specification's Record Store operations alone, which have
  no cache; the cache is still failing afterwards, and no response is an exception other
  than those of the store and the boundary (404, a query parameter out of bounds, a
  response that cannot be built from the stored item). The same responses are given by
  a working cache that agrees with the same store: the failure of the cache changes no
  outcome.
\<close>

theorem cache_failure_tolerance:
  "(cache_failing w \<longrightarrow>
      fst (cache_get key w) = Inr PNone \<and>
      fst (cache_set key v ttl w) = Inr False \<and>
      fst (cache_delete key w) = Inr False \<and>
      fst (run qs w) = fst (store_only_run qs (items_db w)) \<and>
      items_db (snd (run qs w)) = snd (store_only_run qs (items_db w)) \<and>
      cache_failing (snd (run qs w)) \<and>
      (\<forall>x. Inl x \<in> set (fst (run qs w)) \<longrightarrow> store_error x)) \<and>
   (cache_failing w \<and> healthy w' \<and> cache_agrees w' \<and> items_db w' = items_db w \<longrightarrow>
      fst (run qs w) = fst (run qs w') \<and>
      items_db (snd (run qs w)) = items_db (snd (run qs w')))"
proof (intro conjI impI allI; (elim conjE)?)
  assume f: "cache_failing w"
  note r = run_store_only [OF f, of qs]
  show "fst (cache_get key w) = Inr PNone"
    by (rule cache_failing_get(1) [OF f])
  show "fst (cache_set key v ttl w) = Inr False"
    by (rule cache_failing_set(1) [OF f])
  show "fst (cache_delete key w) = Inr False"
    by (rule cache_failing_delete(1) [OF f])
  show "fst (run qs w) = fst (store_only_run qs (items_db w))"
    "items_db (snd (run qs w)) = snd (store_only_run qs (items_db w))"
    "cache_failing (snd (run qs w))"
    using r by simp_all
  fix x
  assume "Inl x \<in> set (fst (run qs w))"
  then show "store_error x"
    using r store_only_run_error [of x qs "items_db w"] by simp
next
  assume f: "cache_failing w" and h: "healthy w'" "cache_agrees w'"
    and db: "items_db w' = items_db w"
  show "fst (run qs w) = fst (run qs w')"
    "items_db (snd (run qs w)) = items_db (snd (run qs w'))"
    using run_store_only [OF f, of qs] run_healthy [OF h, of qs] db by simp_all
qed

text \<open>
  One request of every kind with a server that is down: each succeeds, the last read
  raises 404 since the item was deleted; the responses are those of a working cache.
\<close>

theorem cache_failure_tolerance_witness:
  "cache_failing world_down \<and> healthy world0 \<and> cache_agrees world0 \<and>
   items_db world0 = items_db world_down \<and>
   fst (run session_requests world_down) = session_responses \<and>
   fst (run session_requests world0) = session_responses"
proof -
  have f: "cache_failing world_down"
    by (simp add: cache_failing_def redis_down_def example_defs)
  have db: "items_db world_down = []" "items_db world0 = []"
    by (simp_all add: example_defs)
  have same: "items_db world0 = items_db world_down"
    by (simp add: db)
  note t = cache_failure_tolerance [of world_down "''k''" PNone None session_requests world0]
  have e: "fst (run session_requests world_down) =
      fst (store_only_run session_requests (items_db world_down))"
    "fst (run session_requests world_down) = fst (run session_requests world0)"
    using t f world0_healthy world0_agrees same by blast+
  have r: "fst (run session_requests world_down) = session_responses"
    unfolding e(1) db by (rule session_store_only)
  have r0: "fst (run session_requests world0) = session_responses"
    unfolding e(2) [symmetric] by (rule r)
  show ?thesis
    using f world0_healthy world0_agrees same r r0 by simp
qed

section \<open>The service before \<^verbatim>\<open>connect\<close> and after \<^verbatim>\<open>disconnect\<close>\<close>

lemma unconnected_failing: "\<not> connected w \<Longrightarrow> cache_failing w"
  by (simp add: cache_failing_def)

text \<open>
  Claim C10. A cache service without a client returns the failure value from every
  operation and does not touch the server: \<^verbatim>\<open>None\<close> from \<^verbatim>\<open>get\<close>, \<^verbatim>\<open>False\<close> from
  \<^verbatim>\<open>set\<close>, \<^verbatim>\<open>delete\<close>, \<^verbatim>\<open>exists\<close> and \<^verbatim>\<open>health_check\<close>. A new service has no
  client, \<^verbatim>\<open>disconnect\<close> leaves none, \<^verbatim>\<open>close_cache\<close> leaves no connected service, and
  the singleton created on first use is a new service. With no connected service every
  sequence of requests is answered as by the Record Store operations alone, which is
  also how it is answered by a connected service whose server is down.
\<close>

theorem unconnected_cache:
  "(cs_client self = None \<longrightarrow>
      CacheService_get self key r = (Inr PNone, r) \<and>
      CacheService_set self key v ttl r = (Inr False, r) \<and>
      CacheService_delete self key r = (Inr False, r) \<and>
      CacheService_exists self key r = (Inr False, r) \<and>
      health_check self r = (Inr False, r)) \<and>
   cs_client CacheService_init = None \<and>
   cs_client (disconnect self) = None \<and>
   \<not> connected (close_cache w) \<and>
   (cache_service w = None \<longrightarrow> \<not> connected w \<and> fst (get_cache_service w) = CacheService_init) \<and>
   (\<not> connected w \<longrightarrow>
      fst (run qs w) = fst (store_only_run qs (items_db w)) \<and>
      items_db (snd (run qs w)) = snd (store_only_run qs (items_db w)) \<and>
      \<not> connected (snd (run qs w)) \<and>
      (\<forall>w'. connected w' \<and> redis_down (redis w') \<and> items_db w' = items_db w \<longrightarrow>
         fst (run qs w') = fst (run qs w)))"
proof (intro conjI impI allI; (elim conjE)?)
  assume "cs_client self = None"
  then show "CacheService_get self key r = (Inr PNone, r)"
    "CacheService_set self key v ttl r = (Inr False, r)"
    "CacheService_delete self key r = (Inr False, r)"
    "CacheService_exists self key r = (Inr False, r)"
    "health_check self r = (Inr False, r)"
    by (simp_all add: client_defs)
next
  show "cs_client CacheService_init = None"
    by (simp add: CacheService_init_def)
  show "cs_client (disconnect self) = None"
    by (simp add: disconnect_def Let_def)
  show "\<not> connected (close_cache w)"
    by (simp add: close_cache_def connected_def Let_def split: option.splits)
next
  assume "cache_service w = None"
  then show "\<not> connected w" "fst (get_cache_service w) = CacheService_init"
    by (simp_all add: connected_def get_cache_service_def)
next
  assume n: "\<not> connected w"
  note r = run_store_only [OF unconnected_failing [OF n], of qs]
  show "fst (run qs w) = fst (store_only_run qs (items_db w))"
    "items_db (snd (run qs w)) = snd (store_only_run qs (items_db w))"
    using r by simp_all
  show "\<not> connected (snd (run qs w))"
    using n
  proof (induction qs arbitrary: w)
    case Nil
    then show ?case by simp
  next
    case (Cons q qs)
    have "\<not> connected (snd (handle q w))"
    proof (cases q)
      case (Create item_id now F)
      then show ?thesis using Cons.prems
        by (simp add: split_beta create_item_eq connected_cache_set connected_cache_delete
            connected_frame)
    next
      case (Read item_id)
      have "fst (cache_get (get_cache_key item_id) w) = Inr PNone"
        by (rule cache_failing_get(1) [OF unconnected_failing [OF Cons.prems]])
      then show ?thesis using Cons.prems connected_cache_get [of "get_cache_key item_id" w]
        by (simp add: Read split_beta get_item_eq connected_cache_set connected_frame
            split: option.splits)
    next
      case (Update item_id now u)
      then show ?thesis using Cons.prems
        by (simp add: split_beta update_item_eq connected_cache_set connected_cache_delete
            connected_frame split: option.splits)
    next
      case (Delete item_id)
      then show ?thesis using Cons.prems
        by (simp add: split_beta delete_item_eq connected_cache_delete connected_frame
            split: option.splits)
    next
      case (List page page_size)
      then show ?thesis using Cons.prems
        by (simp add: split_beta list_items_def raise_def return_def Let_def)
    qed
    from Cons.IH [OF this] show ?case
      by (simp add: split_beta)
  qed
  fix w'
  assume "connected w'" and d: "redis_down (redis w')" and db: "items_db w' = items_db w"
  have "cache_failing w'" using d by (simp add: cache_failing_def)
  from run_store_only [OF this, of qs] r db
  show "fst (run qs w') = fst (run qs w)"
    by simp
qed

text \<open>
  A new service, and a session of requests before there is any cache service, answered
  as with a server that is down.
\<close>

theorem unconnected_cache_witness:
  "cs_client CacheService_init = None \<and>
   CacheService_get CacheService_init ''item:i1'' redis_empty = (Inr PNone, redis_empty) \<and>
   health_check CacheService_init redis_empty = (Inr False, redis_empty) \<and>
   cache_service world_unconnected = None \<and> \<not> connected world_unconnected \<and>
   connected world_down \<and> redis_down (redis world_down) \<and>
   items_db world_down = items_db world_unconnected \<and>
   fst (run session_requests world_unconnected) = session_responses \<and>
   fst (run session_requests world_down) = session_responses"
proof -
  have i: "cs_client CacheService_init = None"
    by (simp add: CacheService_init_def)
  have n: "cache_service world_unconnected = None" "\<not> connected world_unconnected"
    by (simp_all add: example_defs connected_def)
  have d: "connected world_down" "redis_down (redis world_down)"
    by (simp_all add: example_defs connected_def redis_down_def)
  have db: "items_db world_unconnected = []" "items_db world_down = []"
    by (simp_all add: example_defs)
  from unconnected_cache [of CacheService_init "''item:i1''" redis_empty "Value PNone" None
      world_unconnected session_requests] i n
  have r: "CacheService_get CacheService_init ''item:i1'' redis_empty = (Inr PNone, redis_empty)"
    "health_check CacheService_init redis_empty = (Inr False, redis_empty)"
    "fst (run session_requests world_unconnected) =
       fst (store_only_run session_requests (items_db world_unconnected))"
    "\<forall>w'. connected w' \<and> redis_down (redis w') \<and> items_db w' = items_db world_unconnected \<longrightarrow>
         fst (run session_requests w') = fst (run session_requests world_unconnected)"
    by blast+
  from r(4) d db have "fst (run session_requests world_down) =
      fst (run session_requests world_unconnected)"
    by simp
  then show ?thesis
    using i n d r(1,2,3) by (simp add: db session_store_only)
qed

end
